theory Spec2Isabelle
  imports Complex_Main
begin

section \<open>JavaScript values\<close>

text \<open>
  The configuration reaches the validators as \<^verbatim>\<open>Record<string, any>\<close>, so every field is
  an arbitrary JavaScript value. A number is an IEEE double: not-a-number, one of the two
  infinities, or a finite value, which is modelled by the real number it denotes (both
  zeros are \<open>Fin 0\<close>; they compare alike).
\<close>

datatype jsnum = NaN | PosInf | NegInf | Fin real

text \<open>The comparison \<^verbatim>\<open>a < b\<close> on numbers: false as soon as one side is NaN.\<close>

fun num_less :: "jsnum \<Rightarrow> jsnum \<Rightarrow> bool" where
  "num_less NaN b = False"
| "num_less PosInf b = False"
| "num_less NegInf b = (case b of NaN \<Rightarrow> False | NegInf \<Rightarrow> False | PosInf \<Rightarrow> True | Fin y \<Rightarrow> True)"
| "num_less (Fin x) b = (case b of NaN \<Rightarrow> False | NegInf \<Rightarrow> False | PosInf \<Rightarrow> True | Fin y \<Rightarrow> x < y)"

text \<open>The comparison \<^verbatim>\<open>a <= b\<close> on numbers.\<close>

fun num_le :: "jsnum \<Rightarrow> jsnum \<Rightarrow> bool" where
  "num_le NaN b = False"
| "num_le PosInf b = (case b of PosInf \<Rightarrow> True | NaN \<Rightarrow> False | NegInf \<Rightarrow> False | Fin y \<Rightarrow> False)"
| "num_le NegInf b = (case b of NaN \<Rightarrow> False | NegInf \<Rightarrow> True | PosInf \<Rightarrow> True | Fin y \<Rightarrow> True)"
| "num_le (Fin x) b = (case b of NaN \<Rightarrow> False | NegInf \<Rightarrow> False | PosInf \<Rightarrow> True | Fin y \<Rightarrow> x \<le> y)"

text \<open>
  The sum \<^verbatim>\<open>a + b\<close> of two numbers. On finite operands it is the exact sum, where the
  code rounds to the nearest double: the two agree whenever the exact sum of the operands
  is a double, as it is for the integers and half-integers below \<open>2^53\<close>, and they differ
  otherwise (ten additions of 0.1 give less than 1 in the code). Every statement below
  about the second loop of \<^verbatim>\<open>generate\<close> is therefore made for steps whose sums are exact
  only.
\<close>

fun num_add :: "jsnum \<Rightarrow> jsnum \<Rightarrow> jsnum" where
  "num_add NaN b = NaN"
| "num_add PosInf b = (case b of NaN \<Rightarrow> NaN | NegInf \<Rightarrow> NaN | PosInf \<Rightarrow> PosInf | Fin y \<Rightarrow> PosInf)"
| "num_add NegInf b = (case b of NaN \<Rightarrow> NaN | PosInf \<Rightarrow> NaN | NegInf \<Rightarrow> NegInf | Fin y \<Rightarrow> NegInf)"
| "num_add (Fin x) b = (case b of NaN \<Rightarrow> NaN | PosInf \<Rightarrow> PosInf | NegInf \<Rightarrow> NegInf | Fin y \<Rightarrow> Fin (x + y))"

text \<open>
  A value is \<^verbatim>\<open>undefined\<close>, \<^verbatim>\<open>null\<close>, a boolean, a number, a string, a function or
  something else (\<open>JOther\<close>: a plain object or an array, for which \<^verbatim>\<open>typeof\<close> says
  \<^verbatim>\<open>"object"\<close>). A function value carries the behaviour the interface
  \<^verbatim>\<open>OpenAIEmbeddingConfig\<close> declares for \<^verbatim>\<open>splitter\<close>: from a text to its chunks.
\<close>

datatype jsval =
    JUndefined
  | JNull
  | JBool bool
  | JNum jsnum
  | JStr string
  | JFun "string \<Rightarrow> string list"
  | JOther

fun typeof :: "jsval \<Rightarrow> string" where
  "typeof JUndefined = ''undefined''"
| "typeof JNull = ''object''"
| "typeof (JBool b) = ''boolean''"
| "typeof (JNum n) = ''number''"
| "typeof (JStr s) = ''string''"
| "typeof (JFun f) = ''function''"
| "typeof JOther = ''object''"

text \<open>\<^verbatim>\<open>v == null\<close>, the test inside \<^verbatim>\<open>fromNullable\<close>: true of \<^verbatim>\<open>undefined\<close> and \<^verbatim>\<open>null\<close> only.\<close>

fun nullish :: "jsval \<Rightarrow> bool" where
  "nullish JUndefined = True"
| "nullish JNull = True"
| "nullish (JBool b) = False"
| "nullish (JNum n) = False"
| "nullish (JStr s) = False"
| "nullish (JFun f) = False"
| "nullish JOther = False"

section \<open>The predicates\<close>

definition isString :: "jsval \<Rightarrow> bool" where
  "isString v = (typeof v = ''string'')"

text \<open>
  \<^verbatim>\<open>typeof v === "number" && v > 0\<close>: the comparison is only reached by a number.
\<close>

definition isPositiveNumber :: "jsval \<Rightarrow> bool" where
  "isPositiveNumber v =
     (typeof v = ''number'' \<and> (case v of JNum n \<Rightarrow> num_less (Fin 0) n | _ \<Rightarrow> False))"

definition isNonNegativeNumber :: "jsval \<Rightarrow> bool" where
  "isNonNegativeNumber v =
     (typeof v = ''number'' \<and> (case v of JNum n \<Rightarrow> num_le (Fin 0) n | _ \<Rightarrow> False))"

definition isFunction :: "jsval \<Rightarrow> bool" where
  "isFunction v = (typeof v = ''function'')"

section \<open>The combinators of fp-ts the validators use\<close>

text \<open>
  An \<^verbatim>\<open>Error\<close> is identified by its message; a \<^verbatim>\<open>TypeError\<close> is what the runtime throws
  when a property of \<^verbatim>\<open>undefined\<close> is read or a value that is not a function is called.
  \<^verbatim>\<open>Either<Error, A>\<close> is the sum \<open>error + A\<close>, with \<open>Inl\<close> for \<^verbatim>\<open>Left\<close>.
\<close>

datatype error = Error string | TypeError

definition fromNullableE :: "error \<Rightarrow> jsval \<Rightarrow> error + jsval" where
  "fromNullableE e a = (if nullish a then Inl e else Inr a)"

definition fromPredicateE :: "(jsval \<Rightarrow> bool) \<Rightarrow> (jsval \<Rightarrow> error) \<Rightarrow> jsval \<Rightarrow> error + jsval" where
  "fromPredicateE predicate onFalse a = (if predicate a then Inr a else Inl (onFalse a))"

definition chainE :: "('a \<Rightarrow> error + 'b) \<Rightarrow> error + 'a \<Rightarrow> error + 'b" where
  "chainE f ma = (case ma of Inl e \<Rightarrow> Inl e | Inr a \<Rightarrow> f a)"

definition fromNullableO :: "jsval \<Rightarrow> jsval option" where
  "fromNullableO a = (if nullish a then None else Some a)"

text \<open>
  These combinators belong to the library fp-ts, which the repository imports; they are
  modelled after the library: \<^verbatim>\<open>fromNullable\<close> tests \<^verbatim>\<open>a == null\<close>, \<^verbatim>\<open>fromPredicate\<close>
  applies the predicate, \<^verbatim>\<open>chain\<close> passes a \<^verbatim>\<open>Left\<close> through.
  \<^verbatim>\<open>sequenceS(E.Apply)\<close> takes the keys of the record in \<^verbatim>\<open>Object.keys\<close> order, which for
  an object literal with such keys is the order they are written in, and folds them from
  the left with \<^verbatim>\<open>ap\<close>. \<^verbatim>\<open>ap\<close> of \<^verbatim>\<open>Either\<close> keeps the \<^verbatim>\<open>Left\<close> of the function side
  when there is one, else the \<^verbatim>\<open>Left\<close> of the argument side, else applies. The record is
  the list of its entries in key order; \<open>ap_field\<close> is one \<^verbatim>\<open>ap\<close> of the fold.
\<close>

fun ap_field :: "error + (string \<times> 'a) list \<Rightarrow> string \<times> (error + 'a) \<Rightarrow> error + (string \<times> 'a) list" where
  "ap_field (Inl e) kv = Inl e"
| "ap_field (Inr r) (k, Inl e) = Inl e"
| "ap_field (Inr r) (k, Inr a) = Inr (r @ [(k, a)])"

definition sequenceS :: "(string \<times> (error + 'a)) list \<Rightarrow> error + (string \<times> 'a) list" where
  "sequenceS r = foldl ap_field (Inr []) r"

section \<open>The field checks\<close>

definition validateRequiredField :: "(jsval \<Rightarrow> bool) \<Rightarrow> string \<Rightarrow> jsval \<Rightarrow> error + jsval" where
  "validateRequiredField predicate name value =
     chainE (\<lambda>v. fromPredicateE predicate (\<lambda>_. Error (name @ '' is invalid'')) v)
       (fromNullableE (Error (name @ '' is required'')) value)"

definition validateOptionalField :: "(jsval \<Rightarrow> bool) \<Rightarrow> string \<Rightarrow> jsval \<Rightarrow> error + jsval" where
  "validateOptionalField predicate name value =
     (case fromNullableO value of
        None \<Rightarrow> Inr value
      | Some val \<Rightarrow> fromPredicateE predicate (\<lambda>_. Error (name @ '' is invalid'')) val)"

definition validateFieldUpdate :: "string \<Rightarrow> jsval \<Rightarrow> error + jsval" where
  "validateFieldUpdate name value =
     (case fromNullableO value of
        None \<Rightarrow> Inr value
      | Some val \<Rightarrow> Inl (Error (''Updating '' @ name @ '' is not allowed'')))"

section \<open>The configuration and its two validators\<close>

text \<open>
  The object the validators read. A key the object lacks reads as \<^verbatim>\<open>undefined\<close>, so the
  seven fields the code reads, each an arbitrary value, are all of it that matters.
\<close>

record raw_config =
  aiServiceUrl :: jsval
  model :: jsval
  encodingFormat :: jsval
  chunkSize :: jsval
  chunkOverlap :: jsval
  chunkStrategy :: jsval
  splitter :: jsval

text \<open>The record \<^verbatim>\<open>seq\<close> of \<^verbatim>\<open>validateConfig\<close>, in the order its keys are written.\<close>

definition config_checks :: "raw_config \<Rightarrow> (string \<times> (error + jsval)) list" where
  "config_checks config =
     [(''aiServiceUrl'', validateRequiredField isString ''aiServiceUrl'' (aiServiceUrl config)),
      (''model'', validateRequiredField isString ''model'' (model config)),
      (''encodingFormat'', validateOptionalField isString ''encodingFormat'' (encodingFormat config)),
      (''chunkSize'', validateOptionalField isPositiveNumber ''chunkSize'' (chunkSize config)),
      (''chunkOverlap'', validateOptionalField isNonNegativeNumber ''chunkOverlap'' (chunkOverlap config)),
      (''chunkStrategy'', validateOptionalField isString ''chunkStrategy'' (chunkStrategy config)),
      (''splitter'', validateOptionalField isFunction ''splitter'' (splitter config))]"

text \<open>\<^verbatim>\<open>validateConfig\<close>: \<open>Inl err\<close> is \<^verbatim>\<open>throw err\<close>, \<open>Inr ()\<close> the normal return.\<close>

definition validateConfig :: "raw_config \<Rightarrow> error + unit" where
  "validateConfig config =
     (case sequenceS (config_checks config) of Inl err \<Rightarrow> Inl err | Inr r \<Rightarrow> Inr ())"

text \<open>The record \<^verbatim>\<open>seq\<close> of \<^verbatim>\<open>validateConfigUpdate\<close>, in the order its keys are written.\<close>

definition update_checks :: "raw_config \<Rightarrow> (string \<times> (error + jsval)) list" where
  "update_checks newConfig =
     [(''model'', validateFieldUpdate ''model'' (model newConfig)),
      (''encodingFormat'', validateFieldUpdate ''encodingFormat'' (encodingFormat newConfig)),
      (''chunkStrategy'', validateFieldUpdate ''chunkStrategy'' (chunkStrategy newConfig)),
      (''chunkOverlap'', validateFieldUpdate ''chunkOverlap'' (chunkOverlap newConfig)),
      (''chunkSize'', validateOptionalField isPositiveNumber ''chunkSize'' (chunkSize newConfig)),
      (''aiServiceUrl'', validateFieldUpdate ''aiServiceUrl'' (aiServiceUrl newConfig)),
      (''splitter'', validateOptionalField isFunction ''splitter'' (splitter newConfig))]"

definition validateConfigUpdate :: "raw_config \<Rightarrow> error + unit" where
  "validateConfigUpdate newConfig =
     (case sequenceS (update_checks newConfig) of Inl err \<Rightarrow> Inl err | Inr r \<Rightarrow> Inr ())"

section \<open>The adapter\<close>

text \<open>
  An instance of \<^verbatim>\<open>OpenAIEmbeddingFunction\<close>: its \<^verbatim>\<open>name\<close> and its private \<^verbatim>\<open>config\<close>,
  which is \<open>None\<close> until the constructor assigns it. This record is an instance as a
  read of its fields shows it at one moment: \<^verbatim>\<open>config\<close> holds the present content of the
  object the instance refers to. The object itself, which the caller still holds, is
  modelled further down, with the store of objects.
\<close>

record adapter =
  name :: string
  config :: "raw_config option"

text \<open>
  Instances live in a heap, and a reference is an index into it, so that two instances
  can be told apart. \<^verbatim>\<open>new\<close> allocates the next free index.
\<close>

type_synonym heap = "adapter list"

text \<open>
  The constructor, with \<open>None\<close> for an omitted argument (an object is always truthy).
  The instance is allocated with \<^verbatim>\<open>config\<close> unset; the assignment is reached only when
  \<^verbatim>\<open>validateConfig\<close> returns. When it throws, the caller gets the error and no reference.
\<close>

definition new_instance :: adapter where
  "new_instance = \<lparr>name = ''openai-embedding-with-chunking'', config = None\<rparr>"

definition construct :: "heap \<Rightarrow> raw_config option \<Rightarrow> (error + nat) \<times> heap" where
  "construct h cfg =
     (let this = length h;
          h1 = h @ [new_instance]
      in case cfg of
           None \<Rightarrow> (Inr this, h1)
         | Some c \<Rightarrow>
             (case validateConfig c of
                Inl err \<Rightarrow> (Inl err, h1)
              | Inr u \<Rightarrow> (Inr this, h1[this := (h1 ! this)\<lparr>config := Some c\<rparr>])))"

text \<open>\<^verbatim>\<open>buildFromConfig(config, _client)\<close> called on \<open>this\<close>; the client is not used.\<close>

definition buildFromConfig :: "heap \<Rightarrow> nat \<Rightarrow> raw_config \<Rightarrow> (error + nat) \<times> heap" where
  "buildFromConfig h this cfg = construct h (Some cfg)"

text \<open>
  \<^verbatim>\<open>getConfig\<close>: the object literal, as the list of its entries in key order. On an
  instance whose \<^verbatim>\<open>config\<close> is unset the first property read throws.
\<close>

definition getConfig :: "adapter \<Rightarrow> error + (string \<times> jsval) list" where
  "getConfig this =
     (case config this of
        None \<Rightarrow> Inl TypeError
      | Some c \<Rightarrow>
          Inr [(''aiServiceUrl'', aiServiceUrl c),
               (''model'', model c),
               (''encodingFormat'', encodingFormat c),
               (''chunkSize'', chunkSize c),
               (''chunkOverlap'', chunkOverlap c),
               (''chunkStrategy'', chunkStrategy c)])"

subsection \<open>The configuration as a shared object\<close>








section \<open>The embedding pipeline\<close>

text \<open>
  \<^verbatim>\<open>ToIntegerOrInfinity\<close> truncates a finite number towards zero.
\<close>

definition js_truncate :: "real \<Rightarrow> int" where
  "js_truncate r = (if 0 \<le> r then \<lfloor>r\<rfloor> else \<lceil>r\<rceil>)"

text \<open>
  The index \<^verbatim>\<open>Array.prototype.slice\<close> makes of an argument, for an array of length \<open>len\<close>:
  NaN is 0, a negative index counts from the end, and the result is clamped to
  \<open>0 .. len\<close>.
\<close>

fun relative_index :: "nat \<Rightarrow> jsnum \<Rightarrow> nat" where
  "relative_index len NaN = 0"
| "relative_index len PosInf = len"
| "relative_index len NegInf = 0"
| "relative_index len (Fin r) =
     (if js_truncate r < 0 then nat (max (int len + js_truncate r) 0) else min (nat (js_truncate r)) len)"

definition slice :: "'a list \<Rightarrow> jsnum \<Rightarrow> jsnum \<Rightarrow> 'a list" where
  "slice xs start fin =
     take (relative_index (length xs) fin - relative_index (length xs) start)
       (drop (relative_index (length xs) start) xs)"

text \<open>
  The number that \<^verbatim>\<open>i + this.config.chunkSize\<close> adds to the number \<open>i\<close>. For a string, a
  function or an object \<^verbatim>\<open>+\<close> is string concatenation, which is not modelled (\<open>None\<close>);
  \<^verbatim>\<open>validateConfig\<close> rejects such a \<^verbatim>\<open>chunkSize\<close>, so no constructed adapter holds one.
\<close>

fun numeric_operand :: "jsval \<Rightarrow> jsnum option" where
  "numeric_operand JUndefined = Some NaN"
| "numeric_operand JNull = Some (Fin 0)"
| "numeric_operand (JBool b) = Some (Fin (if b then 1 else 0))"
| "numeric_operand (JNum n) = Some n"
| "numeric_operand (JStr s) = None"
| "numeric_operand (JFun f) = None"
| "numeric_operand JOther = None"

text \<open>The decimal numeral of a status code, as a template literal prints it.\<close>

fun string_of_nat :: "nat \<Rightarrow> string" where
  "string_of_nat n =
     (if n < 10 then [''0123456789'' ! n]
      else string_of_nat (n div 10) @ [''0123456789'' ! (n mod 10)])"

text \<open>
  One request: the URL it is posted to and the three members of its JSON body.
\<close>

record request =
  req_url :: jsval
  req_model :: jsval
  req_input :: "string list"
  req_encoding_format :: jsval

text \<open>
  What the code reads of a response: \<^verbatim>\<open>ok\<close>, \<^verbatim>\<open>status\<close>, \<^verbatim>\<open>statusText\<close>, and
  \<^verbatim>\<open>json.data.map(d => d.embedding)\<close>, which is \<open>None\<close> when the body is not JSON with a
  \<^verbatim>\<open>data\<close> array (the read then throws).
\<close>

record 'e response =
  ok :: bool
  status :: nat
  statusText :: string
  json_data :: "'e list option"

text \<open>
  The remote service, as \<^verbatim>\<open>fetch\<close> sees it: given the requests this call has already sent
  and the next one, it rejects with an error or resolves with a response.
\<close>

type_synonym 'e fetch = "request list \<Rightarrow> request \<Rightarrow> error + 'e response"

text \<open>
  How a call of \<^verbatim>\<open>generate\<close> ends: the promise resolves with the vectors, or rejects with
  an error; \<open>NotModelled\<close> stands for the string concatenation above.
\<close>

datatype 'a outcome = Returned 'a | Thrown error | NotModelled

definition batch_request :: "raw_config \<Rightarrow> string list \<Rightarrow> jsnum \<Rightarrow> jsnum \<Rightarrow> request" where
  "batch_request c chunks i step =
     \<lparr>req_url = aiServiceUrl c, req_model = model c,
      req_input = slice chunks i (num_add i step),
      req_encoding_format = encodingFormat c\<rparr>"

definition request_failed :: "'e response \<Rightarrow> error" where
  "request_failed r =
     Error (''Embedding request failed: '' @ string_of_nat (status r) @ '' '' @ statusText r)"

text \<open>
  The first loop of \<^verbatim>\<open>generate\<close>: every text is split and its chunks are pushed on
  \<open>chunks\<close>. Reading \<^verbatim>\<open>this.config.splitter\<close> throws when \<^verbatim>\<open>config\<close> is unset, and the call
  throws when the splitter is not a function.
\<close>

fun split_texts :: "raw_config option \<Rightarrow> string list \<Rightarrow> string list \<Rightarrow> error + string list" where
  "split_texts cfg [] chunks = Inr chunks"
| "split_texts cfg (text # texts) chunks =
     (case cfg of
        None \<Rightarrow> Inl TypeError
      | Some c \<Rightarrow>
          (case splitter c of
             JFun f \<Rightarrow> split_texts cfg texts (chunks @ f text)
           | _ \<Rightarrow> Inl TypeError))"

text \<open>
  The second loop, from the loop variable \<open>i\<close>, the vectors collected so far and the
  requests sent so far. It need not end (a \<^verbatim>\<open>chunkSize\<close> of \<^verbatim>\<open>null\<close> adds 0 for ever), so
  the result is an option, \<open>None\<close> for a loop that never returns. The result pairs the
  outcome with the requests that were sent.
\<close>

partial_function (option) embed_batches ::
  "raw_config option \<Rightarrow> 'e fetch \<Rightarrow> string list \<Rightarrow> jsnum \<Rightarrow> 'e list \<Rightarrow> request list
     \<Rightarrow> ('e list outcome \<times> request list) option" where
  "embed_batches cfg fetch chunks i embeddings sent =
     (if num_less i (Fin (real (length chunks))) then
        (case cfg of
           None \<Rightarrow> Some (Thrown TypeError, sent)
         | Some c \<Rightarrow>
             (case numeric_operand (chunkSize c) of
                None \<Rightarrow> Some (NotModelled, sent)
              | Some step \<Rightarrow>
                  (case fetch sent (batch_request c chunks i step) of
                     Inl err \<Rightarrow> Some (Thrown err, sent @ [batch_request c chunks i step])
                   | Inr response \<Rightarrow>
                       if \<not> ok response
                       then Some (Thrown (request_failed response),
                                  sent @ [batch_request c chunks i step])
                       else (case json_data response of
                               None \<Rightarrow> Some (Thrown TypeError, sent @ [batch_request c chunks i step])
                             | Some vs \<Rightarrow>
                                 embed_batches cfg fetch chunks (num_add i step) (embeddings @ vs)
                                   (sent @ [batch_request c chunks i step])))))
      else Some (Returned embeddings, sent))"

definition generate :: "adapter \<Rightarrow> 'e fetch \<Rightarrow> string list \<Rightarrow> ('e list outcome \<times> request list) option" where
  "generate this fetch texts =
     (case split_texts (config this) texts [] of
        Inl err \<Rightarrow> Some (Thrown err, [])
      | Inr chunks \<Rightarrow> embed_batches (config this) fetch chunks (Fin 0) [] [])"

definition generateForQueries :: "adapter \<Rightarrow> 'e fetch \<Rightarrow> string list \<Rightarrow> ('e list outcome \<times> request list) option" where
  "generateForQueries this fetch texts = generate this fetch texts"

section \<open>Notions used to state the properties\<close>

text \<open>The first \<^verbatim>\<open>Left\<close> of a list of check results, if there is one.\<close>

fun first_left :: "(error + 'a) list \<Rightarrow> error option" where
  "first_left [] = None"
| "first_left (Inl e # xs) = Some e"
| "first_left (Inr a # xs) = first_left xs"

text \<open>An optional field passes its check: it is absent, or it satisfies the predicate.\<close>

definition opt_ok :: "(jsval \<Rightarrow> bool) \<Rightarrow> jsval \<Rightarrow> bool" where
  "opt_ok p v = (nullish v \<or> p v)"

text \<open>
  Every instance of the heap is empty or holds a configuration that \<^verbatim>\<open>validateConfig\<close>
  accepts.
\<close>

definition heap_ok :: "heap \<Rightarrow> bool" where
  "heap_ok h =
     list_all (\<lambda>a. case config a of None \<Rightarrow> True | Some c \<Rightarrow> validateConfig c = Inr ()) h"



text \<open>
  The partition of a list into consecutive batches of \<open>k\<close> elements, the last one
  holding what is left.
\<close>

function batches_of :: "nat \<Rightarrow> 'a list \<Rightarrow> 'a list list" where
  "batches_of k xs = (if k = 0 \<or> xs = [] then [] else take k xs # batches_of k (drop k xs))"
  by pat_completeness auto
termination
  by (relation "measure (\<lambda>(k, xs). length xs)") auto

declare batches_of.simps [simp del]

text \<open>
  The steps for which every sum the second loop forms is exact in double arithmetic, so
  that \<open>num_add\<close> is the addition of the code: NaN and the infinities, and the whole
  numbers from 0 on. With a whole step \<open>k\<close> the loop variable is a multiple of \<open>k\<close>
  below the length of the array, which is below \<open>2^32\<close>, each time a sum is formed. A step
  such as 0.1, whose sums round, is not among them.
\<close>

fun exact_step :: "jsnum \<Rightarrow> bool" where
  "exact_step NaN = True"
| "exact_step PosInf = True"
| "exact_step NegInf = True"
| "exact_step (Fin r) = (0 \<le> r \<and> real_of_int \<lfloor>r\<rfloor> = r)"

text \<open>
  The value of the loop variable \<open>i\<close> when iteration \<open>j\<close> of the second loop starts, the
  request that iteration sends, and the requests sent before it.
\<close>

definition loop_index :: "jsnum \<Rightarrow> nat \<Rightarrow> jsnum" where
  "loop_index step j = ((\<lambda>i. num_add i step) ^^ j) (Fin 0)"

definition nth_request :: "raw_config \<Rightarrow> string list \<Rightarrow> jsnum \<Rightarrow> nat \<Rightarrow> request" where
  "nth_request c chunks step j = batch_request c chunks (loop_index step j) step"

definition sent_before :: "raw_config \<Rightarrow> string list \<Rightarrow> jsnum \<Rightarrow> nat \<Rightarrow> request list" where
  "sent_before c chunks step j = map (nth_request c chunks step) [0..<j]"

text \<open>The request that carries the batch \<open>b\<close>.\<close>

definition request_of :: "raw_config \<Rightarrow> string list \<Rightarrow> request" where
  "request_of c b =
     \<lparr>req_url = aiServiceUrl c, req_model = model c, req_input = b,
      req_encoding_format = encodingFormat c\<rparr>"

subsection \<open>Concrete inputs\<close>

text \<open>The \<^verbatim>\<open>validConfig\<close> of the test file, and the object with no field at all.\<close>

definition validConfig :: raw_config where
  "validConfig =
     \<lparr>aiServiceUrl = JStr ''https://example.com/embeddings'',
      model = JStr ''text-embedding-3-large'',
      encodingFormat = JStr ''float'',
      chunkSize = JNum (Fin 64),
      chunkOverlap = JNum (Fin 10),
      chunkStrategy = JStr ''token'',
      splitter = JFun (\<lambda>text. [text])\<rparr>"

definition emptyObject :: raw_config where
  "emptyObject =
     \<lparr>aiServiceUrl = JUndefined, model = JUndefined, encodingFormat = JUndefined,
      chunkSize = JUndefined, chunkOverlap = JUndefined, chunkStrategy = JUndefined,
      splitter = JUndefined\<rparr>"

text \<open>
  A service that answers every request with status 200 and, for each chunk, the chunk
  itself as its vector; and one that does so except for the second request of a call,
  which it answers with status 500.
\<close>

definition echo :: "string fetch" where
  "echo hist req =
     Inr \<lparr>ok = True, status = 200, statusText = ''OK'', json_data = Some (req_input req)\<rparr>"

definition second_fails :: "string fetch" where
  "second_fails hist req =
     (if length hist = 1
      then Inr \<lparr>ok = False, status = 500, statusText = ''Internal Server Error'', json_data = None\<rparr>
      else echo hist req)"

section \<open>The validators\<close>

subsection \<open>What the combinators compute\<close>

lemma foldl_ap_field_Inl: "foldl ap_field (Inl e) r = Inl e"
  by (induction r) simp_all

lemma foldl_ap_field_Inr:
  "foldl ap_field (Inr acc) r =
     (case first_left (map snd r) of
        Some e \<Rightarrow> Inl e
      | None \<Rightarrow> Inr (acc @ map (\<lambda>(k, x). (k, projr x)) r))"
proof (induction r arbitrary: acc)
  case Nil
  show ?case by simp
next
  case (Cons kv r)
  obtain k x where kv: "kv = (k, x)" by (cases kv)
  show ?case
  proof (cases x)
    case (Inl e)
    with kv show ?thesis by (simp add: foldl_ap_field_Inl)
  next
    case (Inr a)
    with kv Cons.IH [of "acc @ [(k, a)]"] show ?thesis by (simp split: option.splits)
  qed
qed

lemma sequenceS_first_left:
  "(case sequenceS r of Inl err \<Rightarrow> Inl err | Inr x \<Rightarrow> Inr ()) =
     (case first_left (map snd r) of Some e \<Rightarrow> Inl e | None \<Rightarrow> Inr ())"
  by (simp add: sequenceS_def foldl_ap_field_Inr split: option.splits)

lemma first_left_Some_iff:
  "first_left xs = Some e \<longleftrightarrow>
     (\<exists>i<length xs. xs ! i = Inl e \<and> (\<forall>j<i. \<exists>v. xs ! j = Inr v))"
proof (induction xs)
  case Nil
  show ?case by simp
next
  case (Cons x xs)
  show ?case
  proof (cases x)
    case (Inl e')
    have "(\<exists>i<length (x # xs). (x # xs) ! i = Inl e \<and> (\<forall>j<i. \<exists>v. (x # xs) ! j = Inr v)) \<longleftrightarrow> e' = e"
    proof
      assume "\<exists>i<length (x # xs). (x # xs) ! i = Inl e \<and> (\<forall>j<i. \<exists>v. (x # xs) ! j = Inr v)"
      then obtain i where i: "(x # xs) ! i = Inl e" "\<forall>j<i. \<exists>v. (x # xs) ! j = Inr v" by blast
      show "e' = e"
      proof (cases i)
        case 0
        with i(1) Inl show ?thesis by simp
      next
        case (Suc n)
        with i(2) have "\<exists>v. (x # xs) ! 0 = Inr v" by blast
        with Inl show ?thesis by simp
      qed
    next
      assume "e' = e"
      with Inl have "(x # xs) ! 0 = Inl e \<and> (\<forall>j<0. \<exists>v. (x # xs) ! j = Inr v)" by simp
      then show "\<exists>i<length (x # xs). (x # xs) ! i = Inl e \<and> (\<forall>j<i. \<exists>v. (x # xs) ! j = Inr v)"
        by (intro exI [of _ 0]) simp
    qed
    with Inl show ?thesis by simp
  next
    case (Inr a)
    have "(\<exists>i<length (x # xs). (x # xs) ! i = Inl e \<and> (\<forall>j<i. \<exists>v. (x # xs) ! j = Inr v)) \<longleftrightarrow>
          (\<exists>i<length xs. xs ! i = Inl e \<and> (\<forall>j<i. \<exists>v. xs ! j = Inr v))"
    proof
      assume "\<exists>i<length (x # xs). (x # xs) ! i = Inl e \<and> (\<forall>j<i. \<exists>v. (x # xs) ! j = Inr v)"
      then obtain i where i: "i < length (x # xs)" "(x # xs) ! i = Inl e"
        "\<forall>j<i. \<exists>v. (x # xs) ! j = Inr v" by blast
      from i(2) Inr obtain n where n: "i = Suc n" by (cases i) simp_all
      from i(3) n have "\<forall>j<n. \<exists>v. xs ! j = Inr v" by fastforce
      with i(1,2) n show "\<exists>i<length xs. xs ! i = Inl e \<and> (\<forall>j<i. \<exists>v. xs ! j = Inr v)"
        by (intro exI [of _ n]) simp
    next
      assume "\<exists>i<length xs. xs ! i = Inl e \<and> (\<forall>j<i. \<exists>v. xs ! j = Inr v)"
      then obtain n where n: "n < length xs" "xs ! n = Inl e" "\<forall>j<n. \<exists>v. xs ! j = Inr v" by blast
      have "\<forall>j<Suc n. \<exists>v. (x # xs) ! j = Inr v"
      proof (intro allI impI)
        fix j assume "j < Suc n"
        with n(3) Inr show "\<exists>v. (x # xs) ! j = Inr v" by (cases j) simp_all
      qed
      with n(1,2) show "\<exists>i<length (x # xs). (x # xs) ! i = Inl e \<and> (\<forall>j<i. \<exists>v. (x # xs) ! j = Inr v)"
        by (intro exI [of _ "Suc n"]) simp
    qed
    with Inr Cons.IH show ?thesis by simp
  qed
qed

lemma required_check:
  "validateRequiredField p n v =
     (if nullish v then Inl (Error (n @ '' is required''))
      else if p v then Inr v else Inl (Error (n @ '' is invalid'')))"
  by (simp add: validateRequiredField_def chainE_def fromNullableE_def fromPredicateE_def)

lemma optional_check:
  "validateOptionalField p n v =
     (if opt_ok p v then Inr v else Inl (Error (n @ '' is invalid'')))"
  by (simp add: validateOptionalField_def fromNullableO_def fromPredicateE_def opt_ok_def)

lemma update_check:
  "validateFieldUpdate n v =
     (if nullish v then Inr v else Inl (Error (''Updating '' @ n @ '' is not allowed'')))"
  by (simp add: validateFieldUpdate_def fromNullableO_def)

lemma isString_present: "isString v \<Longrightarrow> \<not> nullish v"
  by (cases v) (simp_all add: isString_def)

lemma validateConfig_cases:
  "validateConfig c =
    (if nullish (aiServiceUrl c) then Inl (Error ''aiServiceUrl is required'')
     else if \<not> isString (aiServiceUrl c) then Inl (Error ''aiServiceUrl is invalid'')
     else if nullish (model c) then Inl (Error ''model is required'')
     else if \<not> isString (model c) then Inl (Error ''model is invalid'')
     else if \<not> opt_ok isString (encodingFormat c) then Inl (Error ''encodingFormat is invalid'')
     else if \<not> opt_ok isPositiveNumber (chunkSize c) then Inl (Error ''chunkSize is invalid'')
     else if \<not> opt_ok isNonNegativeNumber (chunkOverlap c) then Inl (Error ''chunkOverlap is invalid'')
     else if \<not> opt_ok isString (chunkStrategy c) then Inl (Error ''chunkStrategy is invalid'')
     else if \<not> opt_ok isFunction (splitter c) then Inl (Error ''splitter is invalid'')
     else Inr ())"
  unfolding validateConfig_def sequenceS_first_left config_checks_def
  by (simp add: required_check optional_check)

lemma validateConfigUpdate_cases:
  "validateConfigUpdate u =
    (if \<not> nullish (model u) then Inl (Error ''Updating model is not allowed'')
     else if \<not> nullish (encodingFormat u) then Inl (Error ''Updating encodingFormat is not allowed'')
     else if \<not> nullish (chunkStrategy u) then Inl (Error ''Updating chunkStrategy is not allowed'')
     else if \<not> nullish (chunkOverlap u) then Inl (Error ''Updating chunkOverlap is not allowed'')
     else if \<not> opt_ok isPositiveNumber (chunkSize u) then Inl (Error ''chunkSize is invalid'')
     else if \<not> nullish (aiServiceUrl u) then Inl (Error ''Updating aiServiceUrl is not allowed'')
     else if \<not> opt_ok isFunction (splitter u) then Inl (Error ''splitter is invalid'')
     else Inr ())"
  unfolding validateConfigUpdate_def sequenceS_first_left update_checks_def
  by (simp add: update_check optional_check)

lemma validConfig_accepted: "validateConfig validConfig = Inr ()"
  by (simp add: validateConfig_cases validConfig_def opt_ok_def isString_def isPositiveNumber_def
      isNonNegativeNumber_def isFunction_def)

subsection \<open>Full validation\<close>

text \<open>
  C1 (as amended). \<^verbatim>\<open>validateConfig\<close> accepts a raw config if and only if \<^verbatim>\<open>aiServiceUrl\<close>
  and \<^verbatim>\<open>model\<close> are present and strings and every optional field that is present
  satisfies its predicate. Otherwise it throws for the first field, in the order
  \<^verbatim>\<open>aiServiceUrl\<close>, \<^verbatim>\<open>model\<close>, \<^verbatim>\<open>encodingFormat\<close>, \<^verbatim>\<open>chunkSize\<close>, \<^verbatim>\<open>chunkOverlap\<close>,
  \<^verbatim>\<open>chunkStrategy\<close>, \<^verbatim>\<open>splitter\<close>, whose check fails: \<^verbatim>\<open><field> is required\<close> when that
  field is a required one and absent (\<^verbatim>\<open>undefined\<close> or \<^verbatim>\<open>null\<close>), \<^verbatim>\<open><field> is invalid\<close>
  when it is present and fails its predicate. A field that comes after the first failing
  one is not reported, whatever its state.
\<close>

theorem validateConfig_first_failure:
  "(validateConfig c = Inr () \<longleftrightarrow>
      (\<not> nullish (aiServiceUrl c) \<and> isString (aiServiceUrl c)) \<and>
      (\<not> nullish (model c) \<and> isString (model c)) \<and>
      opt_ok isString (encodingFormat c) \<and>
      opt_ok isPositiveNumber (chunkSize c) \<and>
      opt_ok isNonNegativeNumber (chunkOverlap c) \<and>
      opt_ok isString (chunkStrategy c) \<and>
      opt_ok isFunction (splitter c))
   \<and> (nullish (aiServiceUrl c) \<longrightarrow>
        validateConfig c = Inl (Error ''aiServiceUrl is required''))
   \<and> (\<not> nullish (aiServiceUrl c) \<and> \<not> isString (aiServiceUrl c) \<longrightarrow>
        validateConfig c = Inl (Error ''aiServiceUrl is invalid''))
   \<and> (isString (aiServiceUrl c) \<and> nullish (model c) \<longrightarrow>
        validateConfig c = Inl (Error ''model is required''))
   \<and> (isString (aiServiceUrl c) \<and> \<not> nullish (model c) \<and> \<not> isString (model c) \<longrightarrow>
        validateConfig c = Inl (Error ''model is invalid''))
   \<and> (isString (aiServiceUrl c) \<and> isString (model c) \<and>
        \<not> nullish (encodingFormat c) \<and> \<not> isString (encodingFormat c) \<longrightarrow>
        validateConfig c = Inl (Error ''encodingFormat is invalid''))
   \<and> (isString (aiServiceUrl c) \<and> isString (model c) \<and> opt_ok isString (encodingFormat c) \<and>
        \<not> nullish (chunkSize c) \<and> \<not> isPositiveNumber (chunkSize c) \<longrightarrow>
        validateConfig c = Inl (Error ''chunkSize is invalid''))
   \<and> (isString (aiServiceUrl c) \<and> isString (model c) \<and> opt_ok isString (encodingFormat c) \<and>
        opt_ok isPositiveNumber (chunkSize c) \<and>
        \<not> nullish (chunkOverlap c) \<and> \<not> isNonNegativeNumber (chunkOverlap c) \<longrightarrow>
        validateConfig c = Inl (Error ''chunkOverlap is invalid''))
   \<and> (isString (aiServiceUrl c) \<and> isString (model c) \<and> opt_ok isString (encodingFormat c) \<and>
        opt_ok isPositiveNumber (chunkSize c) \<and> opt_ok isNonNegativeNumber (chunkOverlap c) \<and>
        \<not> nullish (chunkStrategy c) \<and> \<not> isString (chunkStrategy c) \<longrightarrow>
        validateConfig c = Inl (Error ''chunkStrategy is invalid''))
   \<and> (isString (aiServiceUrl c) \<and> isString (model c) \<and> opt_ok isString (encodingFormat c) \<and>
        opt_ok isPositiveNumber (chunkSize c) \<and> opt_ok isNonNegativeNumber (chunkOverlap c) \<and>
        opt_ok isString (chunkStrategy c) \<and>
        \<not> nullish (splitter c) \<and> \<not> isFunction (splitter c) \<longrightarrow>
        validateConfig c = Inl (Error ''splitter is invalid''))"
proof -
  have accept: "validateConfig c = Inr () \<longleftrightarrow>
      (\<not> nullish (aiServiceUrl c) \<and> isString (aiServiceUrl c)) \<and>
      (\<not> nullish (model c) \<and> isString (model c)) \<and>
      opt_ok isString (encodingFormat c) \<and>
      opt_ok isPositiveNumber (chunkSize c) \<and>
      opt_ok isNonNegativeNumber (chunkOverlap c) \<and>
      opt_ok isString (chunkStrategy c) \<and>
      opt_ok isFunction (splitter c)"
    by (simp add: validateConfig_cases)
  have url: "isString (aiServiceUrl c) \<Longrightarrow> \<not> nullish (aiServiceUrl c)"
    and mdl: "isString (model c) \<Longrightarrow> \<not> nullish (model c)"
    by (simp_all add: isString_present)
  have absent: "\<And>p v. \<not> nullish v \<Longrightarrow> \<not> p v \<Longrightarrow> \<not> opt_ok p v"
    by (simp add: opt_ok_def)
  show ?thesis
    unfolding accept [symmetric]
    using url mdl absent by (simp add: validateConfig_cases)
qed

text \<open>
  The theorem at the configurations of the test file: \<^verbatim>\<open>validConfig\<close> is accepted, and
  each of the three changes the tests make to it is rejected with the message the tests
  expect.
\<close>

theorem validateConfig_first_failure_witness:
  "validateConfig validConfig = Inr ()
   \<and> validateConfig (validConfig\<lparr>aiServiceUrl := JUndefined\<rparr>) = Inl (Error ''aiServiceUrl is required'')
   \<and> validateConfig (validConfig\<lparr>chunkSize := JNum (Fin (- 1))\<rparr>) = Inl (Error ''chunkSize is invalid'')
   \<and> validateConfig (validConfig\<lparr>splitter := JStr ''not-a-function''\<rparr>) = Inl (Error ''splitter is invalid'')"
  using validateConfig_first_failure [of validConfig]
    validateConfig_first_failure [of "validConfig\<lparr>aiServiceUrl := JUndefined\<rparr>"]
    validateConfig_first_failure [of "validConfig\<lparr>chunkSize := JNum (Fin (- 1))\<rparr>"]
    validateConfig_first_failure [of "validConfig\<lparr>splitter := JStr ''not-a-function''\<rparr>"]
  by (simp add: validConfig_def opt_ok_def isString_def isPositiveNumber_def
      isNonNegativeNumber_def isFunction_def)

text \<open>
  C1 as stated fails. In the first config the required field \<^verbatim>\<open>model\<close> is absent, yet
  what is thrown is not \<^verbatim>\<open>model is required\<close> (nor any other \<^verbatim>\<open>is required\<close> message) but
  the error of \<^verbatim>\<open>aiServiceUrl\<close>, which is checked first and is not a string. In the
  second, \<^verbatim>\<open>model\<close> is present and not a string, yet what is thrown is not
  \<^verbatim>\<open>model is invalid\<close> but \<^verbatim>\<open>aiServiceUrl is required\<close>.
\<close>

theorem validateConfig_required_counterexample:
  "nullish (model (validConfig\<lparr>aiServiceUrl := JNum (Fin 5), model := JUndefined\<rparr>))
   \<and> validateConfig (validConfig\<lparr>aiServiceUrl := JNum (Fin 5), model := JUndefined\<rparr>)
       = Inl (Error ''aiServiceUrl is invalid'')
   \<and> validateConfig (validConfig\<lparr>aiServiceUrl := JNum (Fin 5), model := JUndefined\<rparr>)
       \<noteq> Inl (Error ''model is required'')
   \<and> \<not> nullish (model (validConfig\<lparr>aiServiceUrl := JUndefined, model := JNum (Fin 123)\<rparr>))
   \<and> \<not> isString (model (validConfig\<lparr>aiServiceUrl := JUndefined, model := JNum (Fin 123)\<rparr>))
   \<and> validateConfig (validConfig\<lparr>aiServiceUrl := JUndefined, model := JNum (Fin 123)\<rparr>)
       = Inl (Error ''aiServiceUrl is required'')"
  by (simp add: validateConfig_cases validConfig_def isString_def)

subsection \<open>Update validation\<close>

text \<open>
  C2 (as amended). \<^verbatim>\<open>validateConfigUpdate\<close> rejects every update object in which a
  present value (anything but \<^verbatim>\<open>undefined\<close> and \<^verbatim>\<open>null\<close>, so also \<^verbatim>\<open>false\<close>, \<^verbatim>\<open>0\<close>, the
  empty string and NaN) is supplied for \<^verbatim>\<open>model\<close>, \<^verbatim>\<open>encodingFormat\<close>, \<^verbatim>\<open>chunkStrategy\<close>,
  \<^verbatim>\<open>chunkOverlap\<close> or \<^verbatim>\<open>aiServiceUrl\<close>, whatever the value. The error is
  \<^verbatim>\<open>Updating <field> is not allowed\<close> for the first supplied field among \<^verbatim>\<open>model\<close>,
  \<^verbatim>\<open>encodingFormat\<close>, \<^verbatim>\<open>chunkStrategy\<close>, \<^verbatim>\<open>chunkOverlap\<close>, in that order; when none of
  these four is supplied and \<^verbatim>\<open>aiServiceUrl\<close> is, it is
  \<^verbatim>\<open>Updating aiServiceUrl is not allowed\<close> provided \<^verbatim>\<open>chunkSize\<close> is absent or a number
  greater than zero, and \<^verbatim>\<open>chunkSize is invalid\<close> otherwise. Absent fields are ignored:
  when the five are absent the result depends on the checks of \<^verbatim>\<open>chunkSize\<close> and
  \<^verbatim>\<open>splitter\<close> only, and an update object whose fields are all absent is accepted.
\<close>

theorem validateConfigUpdate_immutable:
  "(\<not> nullish (model u) \<or> \<not> nullish (encodingFormat u) \<or> \<not> nullish (chunkStrategy u) \<or>
    \<not> nullish (chunkOverlap u) \<or> \<not> nullish (aiServiceUrl u) \<longrightarrow>
      (\<exists>e. validateConfigUpdate u = Inl e))
   \<and> (\<not> nullish (model u) \<longrightarrow>
        validateConfigUpdate u = Inl (Error ''Updating model is not allowed''))
   \<and> (nullish (model u) \<and> \<not> nullish (encodingFormat u) \<longrightarrow>
        validateConfigUpdate u = Inl (Error ''Updating encodingFormat is not allowed''))
   \<and> (nullish (model u) \<and> nullish (encodingFormat u) \<and> \<not> nullish (chunkStrategy u) \<longrightarrow>
        validateConfigUpdate u = Inl (Error ''Updating chunkStrategy is not allowed''))
   \<and> (nullish (model u) \<and> nullish (encodingFormat u) \<and> nullish (chunkStrategy u) \<and>
        \<not> nullish (chunkOverlap u) \<longrightarrow>
        validateConfigUpdate u = Inl (Error ''Updating chunkOverlap is not allowed''))
   \<and> (nullish (model u) \<and> nullish (encodingFormat u) \<and> nullish (chunkStrategy u) \<and>
        nullish (chunkOverlap u) \<and> \<not> nullish (aiServiceUrl u) \<and>
        opt_ok isPositiveNumber (chunkSize u) \<longrightarrow>
        validateConfigUpdate u = Inl (Error ''Updating aiServiceUrl is not allowed''))
   \<and> (nullish (model u) \<and> nullish (encodingFormat u) \<and> nullish (chunkStrategy u) \<and>
        nullish (chunkOverlap u) \<and> \<not> nullish (aiServiceUrl u) \<and>
        \<not> opt_ok isPositiveNumber (chunkSize u) \<longrightarrow>
        validateConfigUpdate u = Inl (Error ''chunkSize is invalid''))
   \<and> (nullish (model u) \<and> nullish (encodingFormat u) \<and> nullish (chunkStrategy u) \<and>
        nullish (chunkOverlap u) \<and> nullish (aiServiceUrl u) \<and>
        nullish (chunkSize u) \<and> nullish (splitter u) \<longrightarrow>
        validateConfigUpdate u = Inr ())
   \<and> (nullish (model u) \<and> nullish (encodingFormat u) \<and> nullish (chunkStrategy u) \<and>
        nullish (chunkOverlap u) \<and> nullish (aiServiceUrl u) \<longrightarrow>
        validateConfigUpdate u =
          (if \<not> opt_ok isPositiveNumber (chunkSize u) then Inl (Error ''chunkSize is invalid'')
           else if \<not> opt_ok isFunction (splitter u) then Inl (Error ''splitter is invalid'')
           else Inr ()))"
  by (simp add: validateConfigUpdate_cases opt_ok_def)

text \<open>
  The theorem at the updates of the test file (a new model, a new encoding format, both
  fields \<^verbatim>\<open>undefined\<close>), and at falsy values: the empty string for \<^verbatim>\<open>aiServiceUrl\<close> and 0
  for \<^verbatim>\<open>chunkOverlap\<close> are rejected like any other value.
\<close>

theorem validateConfigUpdate_immutable_witness:
  "validateConfigUpdate (emptyObject\<lparr>model := JStr ''new-model''\<rparr>)
     = Inl (Error ''Updating model is not allowed'')
   \<and> validateConfigUpdate (emptyObject\<lparr>encodingFormat := JStr ''int8''\<rparr>)
     = Inl (Error ''Updating encodingFormat is not allowed'')
   \<and> validateConfigUpdate (emptyObject\<lparr>aiServiceUrl := JStr ''''\<rparr>)
     = Inl (Error ''Updating aiServiceUrl is not allowed'')
   \<and> validateConfigUpdate (emptyObject\<lparr>chunkOverlap := JNum (Fin 0)\<rparr>)
     = Inl (Error ''Updating chunkOverlap is not allowed'')
   \<and> validateConfigUpdate emptyObject = Inr ()"
  using validateConfigUpdate_immutable [of "emptyObject\<lparr>model := JStr ''new-model''\<rparr>"]
    validateConfigUpdate_immutable [of "emptyObject\<lparr>encodingFormat := JStr ''int8''\<rparr>"]
    validateConfigUpdate_immutable [of "emptyObject\<lparr>aiServiceUrl := JStr ''''\<rparr>"]
    validateConfigUpdate_immutable [of "emptyObject\<lparr>chunkOverlap := JNum (Fin 0)\<rparr>"]
    validateConfigUpdate_immutable [of emptyObject]
  by (simp add: emptyObject_def opt_ok_def)

text \<open>
  C2 as stated fails: this update supplies a string for \<^verbatim>\<open>aiServiceUrl\<close>, and what is
  thrown is \<^verbatim>\<open>chunkSize is invalid\<close>, because the key \<^verbatim>\<open>chunkSize\<close> is written before
  the key \<^verbatim>\<open>aiServiceUrl\<close> in the record \<^verbatim>\<open>validateConfigUpdate\<close> sequences.
\<close>

theorem validateConfigUpdate_url_counterexample:
  "\<not> nullish (aiServiceUrl (emptyObject\<lparr>aiServiceUrl := JStr ''https://other.example'',
                                          chunkSize := JNum (Fin (- 1))\<rparr>))
   \<and> validateConfigUpdate (emptyObject\<lparr>aiServiceUrl := JStr ''https://other.example'',
                                       chunkSize := JNum (Fin (- 1))\<rparr>)
       = Inl (Error ''chunkSize is invalid'')"
  by (simp add: validateConfigUpdate_cases emptyObject_def opt_ok_def isPositiveNumber_def)

subsection \<open>The order of the checks\<close>

text \<open>
  C3 (as amended). Each validator throws the error of the first failing check in the
  order its own record of checks is written in, and the two orders differ:
  \<^verbatim>\<open>validateConfig\<close> checks \<^verbatim>\<open>aiServiceUrl\<close>, \<^verbatim>\<open>model\<close>, \<^verbatim>\<open>encodingFormat\<close>, \<^verbatim>\<open>chunkSize\<close>,
  \<^verbatim>\<open>chunkOverlap\<close>, \<^verbatim>\<open>chunkStrategy\<close>, \<^verbatim>\<open>splitter\<close>; \<^verbatim>\<open>validateConfigUpdate\<close> checks
  \<^verbatim>\<open>model\<close>, \<^verbatim>\<open>encodingFormat\<close>, \<^verbatim>\<open>chunkStrategy\<close>, \<^verbatim>\<open>chunkOverlap\<close>, \<^verbatim>\<open>chunkSize\<close>,
  \<^verbatim>\<open>aiServiceUrl\<close>, \<^verbatim>\<open>splitter\<close>. The statement gives each validator twice: as the first
  \<^verbatim>\<open>Left\<close> of its seven checks listed in its order, and as the chain of tests that says,
  field by field in that order, which error is thrown when the fields before it pass.
\<close>

theorem first_failure_in_key_order:
  "validateConfig c =
     (case first_left
        [validateRequiredField isString ''aiServiceUrl'' (aiServiceUrl c),
         validateRequiredField isString ''model'' (model c),
         validateOptionalField isString ''encodingFormat'' (encodingFormat c),
         validateOptionalField isPositiveNumber ''chunkSize'' (chunkSize c),
         validateOptionalField isNonNegativeNumber ''chunkOverlap'' (chunkOverlap c),
         validateOptionalField isString ''chunkStrategy'' (chunkStrategy c),
         validateOptionalField isFunction ''splitter'' (splitter c)]
      of Some e \<Rightarrow> Inl e | None \<Rightarrow> Inr ())
   \<and> validateConfigUpdate u =
     (case first_left
        [validateFieldUpdate ''model'' (model u),
         validateFieldUpdate ''encodingFormat'' (encodingFormat u),
         validateFieldUpdate ''chunkStrategy'' (chunkStrategy u),
         validateFieldUpdate ''chunkOverlap'' (chunkOverlap u),
         validateOptionalField isPositiveNumber ''chunkSize'' (chunkSize u),
         validateFieldUpdate ''aiServiceUrl'' (aiServiceUrl u),
         validateOptionalField isFunction ''splitter'' (splitter u)]
      of Some e \<Rightarrow> Inl e | None \<Rightarrow> Inr ())
   \<and> validateConfig c =
     (if nullish (aiServiceUrl c) then Inl (Error ''aiServiceUrl is required'')
      else if \<not> isString (aiServiceUrl c) then Inl (Error ''aiServiceUrl is invalid'')
      else if nullish (model c) then Inl (Error ''model is required'')
      else if \<not> isString (model c) then Inl (Error ''model is invalid'')
      else if \<not> nullish (encodingFormat c) \<and> \<not> isString (encodingFormat c)
        then Inl (Error ''encodingFormat is invalid'')
      else if \<not> nullish (chunkSize c) \<and> \<not> isPositiveNumber (chunkSize c)
        then Inl (Error ''chunkSize is invalid'')
      else if \<not> nullish (chunkOverlap c) \<and> \<not> isNonNegativeNumber (chunkOverlap c)
        then Inl (Error ''chunkOverlap is invalid'')
      else if \<not> nullish (chunkStrategy c) \<and> \<not> isString (chunkStrategy c)
        then Inl (Error ''chunkStrategy is invalid'')
      else if \<not> nullish (splitter c) \<and> \<not> isFunction (splitter c)
        then Inl (Error ''splitter is invalid'')
      else Inr ())
   \<and> validateConfigUpdate u =
     (if \<not> nullish (model u) then Inl (Error ''Updating model is not allowed'')
      else if \<not> nullish (encodingFormat u)
        then Inl (Error ''Updating encodingFormat is not allowed'')
      else if \<not> nullish (chunkStrategy u)
        then Inl (Error ''Updating chunkStrategy is not allowed'')
      else if \<not> nullish (chunkOverlap u)
        then Inl (Error ''Updating chunkOverlap is not allowed'')
      else if \<not> nullish (chunkSize u) \<and> \<not> isPositiveNumber (chunkSize u)
        then Inl (Error ''chunkSize is invalid'')
      else if \<not> nullish (aiServiceUrl u)
        then Inl (Error ''Updating aiServiceUrl is not allowed'')
      else if \<not> nullish (splitter u) \<and> \<not> isFunction (splitter u)
        then Inl (Error ''splitter is invalid'')
      else Inr ())"
proof (intro conjI)
  show "validateConfig c =
     (case first_left
        [validateRequiredField isString ''aiServiceUrl'' (aiServiceUrl c),
         validateRequiredField isString ''model'' (model c),
         validateOptionalField isString ''encodingFormat'' (encodingFormat c),
         validateOptionalField isPositiveNumber ''chunkSize'' (chunkSize c),
         validateOptionalField isNonNegativeNumber ''chunkOverlap'' (chunkOverlap c),
         validateOptionalField isString ''chunkStrategy'' (chunkStrategy c),
         validateOptionalField isFunction ''splitter'' (splitter c)]
      of Some e \<Rightarrow> Inl e | None \<Rightarrow> Inr ())"
    unfolding validateConfig_def sequenceS_first_left
    by (simp add: config_checks_def)
next
  show "validateConfigUpdate u =
     (case first_left
        [validateFieldUpdate ''model'' (model u),
         validateFieldUpdate ''encodingFormat'' (encodingFormat u),
         validateFieldUpdate ''chunkStrategy'' (chunkStrategy u),
         validateFieldUpdate ''chunkOverlap'' (chunkOverlap u),
         validateOptionalField isPositiveNumber ''chunkSize'' (chunkSize u),
         validateFieldUpdate ''aiServiceUrl'' (aiServiceUrl u),
         validateOptionalField isFunction ''splitter'' (splitter u)]
      of Some e \<Rightarrow> Inl e | None \<Rightarrow> Inr ())"
    unfolding validateConfigUpdate_def sequenceS_first_left
    by (simp add: update_checks_def)
next
  show "validateConfig c =
     (if nullish (aiServiceUrl c) then Inl (Error ''aiServiceUrl is required'')
      else if \<not> isString (aiServiceUrl c) then Inl (Error ''aiServiceUrl is invalid'')
      else if nullish (model c) then Inl (Error ''model is required'')
      else if \<not> isString (model c) then Inl (Error ''model is invalid'')
      else if \<not> nullish (encodingFormat c) \<and> \<not> isString (encodingFormat c)
        then Inl (Error ''encodingFormat is invalid'')
      else if \<not> nullish (chunkSize c) \<and> \<not> isPositiveNumber (chunkSize c)
        then Inl (Error ''chunkSize is invalid'')
      else if \<not> nullish (chunkOverlap c) \<and> \<not> isNonNegativeNumber (chunkOverlap c)
        then Inl (Error ''chunkOverlap is invalid'')
      else if \<not> nullish (chunkStrategy c) \<and> \<not> isString (chunkStrategy c)
        then Inl (Error ''chunkStrategy is invalid'')
      else if \<not> nullish (splitter c) \<and> \<not> isFunction (splitter c)
        then Inl (Error ''splitter is invalid'')
      else Inr ())"
    by (simp add: validateConfig_cases opt_ok_def)
next
  show "validateConfigUpdate u =
     (if \<not> nullish (model u) then Inl (Error ''Updating model is not allowed'')
      else if \<not> nullish (encodingFormat u)
        then Inl (Error ''Updating encodingFormat is not allowed'')
      else if \<not> nullish (chunkStrategy u)
        then Inl (Error ''Updating chunkStrategy is not allowed'')
      else if \<not> nullish (chunkOverlap u)
        then Inl (Error ''Updating chunkOverlap is not allowed'')
      else if \<not> nullish (chunkSize u) \<and> \<not> isPositiveNumber (chunkSize u)
        then Inl (Error ''chunkSize is invalid'')
      else if \<not> nullish (aiServiceUrl u)
        then Inl (Error ''Updating aiServiceUrl is not allowed'')
      else if \<not> nullish (splitter u) \<and> \<not> isFunction (splitter u)
        then Inl (Error ''splitter is invalid'')
      else Inr ())"
    by (simp add: validateConfigUpdate_cases opt_ok_def)
qed

text \<open>
  The theorem at two inputs with two failing fields each. In full validation \<^verbatim>\<open>model\<close>
  (second key) is reported and not \<^verbatim>\<open>chunkSize\<close> (fourth key); in update validation
  \<^verbatim>\<open>chunkSize\<close> (fifth key) is reported and not \<^verbatim>\<open>aiServiceUrl\<close> (sixth key).
\<close>

theorem first_failure_in_key_order_witness:
  "validateConfig (validConfig\<lparr>model := JNum (Fin 123), chunkSize := JNum (Fin (- 1))\<rparr>)
     = Inl (Error ''model is invalid'')
   \<and> validateConfigUpdate (emptyObject\<lparr>chunkSize := JNum (Fin (- 10)), aiServiceUrl := JStr ''u''\<rparr>)
     = Inl (Error ''chunkSize is invalid'')"
  using first_failure_in_key_order
    [of "validConfig\<lparr>model := JNum (Fin 123), chunkSize := JNum (Fin (- 1))\<rparr>"
        "emptyObject\<lparr>chunkSize := JNum (Fin (- 10)), aiServiceUrl := JStr ''u''\<rparr>"]
  by (simp add: validConfig_def emptyObject_def isString_def isPositiveNumber_def
      required_check optional_check update_check opt_ok_def)

text \<open>
  C3 as stated fails for \<^verbatim>\<open>validateConfigUpdate\<close>: this update supplies both \<^verbatim>\<open>model\<close> and
  \<^verbatim>\<open>aiServiceUrl\<close>, so both checks fail. In the order the claim gives, the service URL
  comes first; the error thrown is the one of \<^verbatim>\<open>model\<close>.
\<close>

theorem update_order_counterexample:
  "validateFieldUpdate ''aiServiceUrl''
       (aiServiceUrl (emptyObject\<lparr>model := JStr ''new-model'', aiServiceUrl := JStr ''https://other.example''\<rparr>))
     = Inl (Error ''Updating aiServiceUrl is not allowed'')
   \<and> validateFieldUpdate ''model''
       (model (emptyObject\<lparr>model := JStr ''new-model'', aiServiceUrl := JStr ''https://other.example''\<rparr>))
     = Inl (Error ''Updating model is not allowed'')
   \<and> validateConfigUpdate (emptyObject\<lparr>model := JStr ''new-model'', aiServiceUrl := JStr ''https://other.example''\<rparr>)
     = Inl (Error ''Updating model is not allowed'')"
  by (simp add: validateConfigUpdate_cases update_check emptyObject_def)

subsection \<open>The chunk size\<close>

lemma isPositiveNumber_iff:
  "isPositiveNumber v \<longleftrightarrow> (\<exists>r. v = JNum (Fin r) \<and> 0 < r) \<or> v = JNum PosInf"
proof (cases v)
  case (JNum n)
  then show ?thesis by (cases n) (simp_all add: isPositiveNumber_def)
qed (simp_all add: isPositiveNumber_def)

text \<open>
  C4 (as amended). A number greater than zero is a finite double above 0 or
  \<^verbatim>\<open>Infinity\<close>. For every object in which \<^verbatim>\<open>chunkSize\<close> is present but is not such a
  number, \<^verbatim>\<open>validateConfig\<close> throws \<^verbatim>\<open>chunkSize is invalid\<close> provided the fields checked
  before it pass (\<^verbatim>\<open>aiServiceUrl\<close> and \<^verbatim>\<open>model\<close> are strings, \<^verbatim>\<open>encodingFormat\<close> is absent
  or a string), and \<^verbatim>\<open>validateConfigUpdate\<close> throws it provided \<^verbatim>\<open>model\<close>,
  \<^verbatim>\<open>encodingFormat\<close>, \<^verbatim>\<open>chunkStrategy\<close> and \<^verbatim>\<open>chunkOverlap\<close> are absent. For every object in
  which \<^verbatim>\<open>chunkSize\<close> is a number greater than zero, \<^verbatim>\<open>validateConfig\<close> returns provided
  the other six fields pass their checks, and \<^verbatim>\<open>validateConfigUpdate\<close> returns provided
  none of the five immutable fields is supplied and \<^verbatim>\<open>splitter\<close> is absent or a function.
\<close>

theorem chunkSize_checked:
  "(isPositiveNumber (chunkSize c) \<longleftrightarrow>
      (\<exists>r. chunkSize c = JNum (Fin r) \<and> 0 < r) \<or> chunkSize c = JNum PosInf)
   \<and> (\<not> nullish (chunkSize c) \<and> \<not> isPositiveNumber (chunkSize c) \<and>
        isString (aiServiceUrl c) \<and> isString (model c) \<and> opt_ok isString (encodingFormat c) \<longrightarrow>
        validateConfig c = Inl (Error ''chunkSize is invalid''))
   \<and> (\<not> nullish (chunkSize c) \<and> \<not> isPositiveNumber (chunkSize c) \<and>
        nullish (model c) \<and> nullish (encodingFormat c) \<and> nullish (chunkStrategy c) \<and>
        nullish (chunkOverlap c) \<longrightarrow>
        validateConfigUpdate c = Inl (Error ''chunkSize is invalid''))
   \<and> (isPositiveNumber (chunkSize c) \<and>
        isString (aiServiceUrl c) \<and> isString (model c) \<and> opt_ok isString (encodingFormat c) \<and>
        opt_ok isNonNegativeNumber (chunkOverlap c) \<and> opt_ok isString (chunkStrategy c) \<and>
        opt_ok isFunction (splitter c) \<longrightarrow>
        validateConfig c = Inr ())
   \<and> (isPositiveNumber (chunkSize c) \<and>
        nullish (model c) \<and> nullish (encodingFormat c) \<and> nullish (chunkStrategy c) \<and>
        nullish (chunkOverlap c) \<and> nullish (aiServiceUrl c) \<and> opt_ok isFunction (splitter c) \<longrightarrow>
        validateConfigUpdate c = Inr ())"
proof -
  have url: "isString (aiServiceUrl c) \<Longrightarrow> \<not> nullish (aiServiceUrl c)"
    and mdl: "isString (model c) \<Longrightarrow> \<not> nullish (model c)"
    by (simp_all add: isString_present)
  have bad: "\<not> nullish (chunkSize c) \<Longrightarrow> \<not> isPositiveNumber (chunkSize c) \<Longrightarrow>
      \<not> opt_ok isPositiveNumber (chunkSize c)"
    and good: "isPositiveNumber (chunkSize c) \<Longrightarrow> opt_ok isPositiveNumber (chunkSize c)"
    by (simp_all add: opt_ok_def)
  show ?thesis
    unfolding isPositiveNumber_iff [symmetric]
    using url mdl bad good
    by (simp add: validateConfig_cases validateConfigUpdate_cases)
qed

text \<open>
  The theorem at the inputs of the test file: a chunk size of -1 in \<^verbatim>\<open>validConfig\<close> and of
  -10 in an update are rejected, \<^verbatim>\<open>validConfig\<close> (64) and the update to 128 are accepted.
\<close>

theorem chunkSize_checked_witness:
  "validateConfig (validConfig\<lparr>chunkSize := JNum (Fin (- 1))\<rparr>) = Inl (Error ''chunkSize is invalid'')
   \<and> validateConfigUpdate (emptyObject\<lparr>chunkSize := JNum (Fin (- 10))\<rparr>) = Inl (Error ''chunkSize is invalid'')
   \<and> validateConfig validConfig = Inr ()
   \<and> validateConfigUpdate (emptyObject\<lparr>chunkSize := JNum (Fin 128)\<rparr>) = Inr ()"
  using chunkSize_checked [of "validConfig\<lparr>chunkSize := JNum (Fin (- 1))\<rparr>"]
    chunkSize_checked [of "emptyObject\<lparr>chunkSize := JNum (Fin (- 10))\<rparr>"]
    chunkSize_checked [of validConfig]
    chunkSize_checked [of "emptyObject\<lparr>chunkSize := JNum (Fin 128)\<rparr>"]
  by (simp add: validConfig_def emptyObject_def opt_ok_def isString_def isNonNegativeNumber_def
      isFunction_def)

text \<open>
  C4 as stated fails. The chunk size of the first object is a number greater than zero,
  and \<^verbatim>\<open>validateConfig\<close> throws, since the object has no \<^verbatim>\<open>aiServiceUrl\<close>: the claim
  puts conditions on the other fields for updates only. The chunk size of the second
  object is present and not greater than zero, and neither validator throws
  \<^verbatim>\<open>chunkSize is invalid\<close>: each reports \<^verbatim>\<open>model\<close>, which it checks before.
\<close>

theorem chunkSize_alone_counterexample:
  "isPositiveNumber (chunkSize (emptyObject\<lparr>chunkSize := JNum (Fin 5)\<rparr>))
   \<and> validateConfig (emptyObject\<lparr>chunkSize := JNum (Fin 5)\<rparr>) = Inl (Error ''aiServiceUrl is required'')
   \<and> \<not> nullish (chunkSize (validConfig\<lparr>model := JNum (Fin 123), chunkSize := JNum (Fin (- 1))\<rparr>))
   \<and> \<not> isPositiveNumber (chunkSize (validConfig\<lparr>model := JNum (Fin 123), chunkSize := JNum (Fin (- 1))\<rparr>))
   \<and> validateConfig (validConfig\<lparr>model := JNum (Fin 123), chunkSize := JNum (Fin (- 1))\<rparr>)
       = Inl (Error ''model is invalid'')
   \<and> validateConfigUpdate (validConfig\<lparr>model := JNum (Fin 123), chunkSize := JNum (Fin (- 1))\<rparr>)
       = Inl (Error ''Updating model is not allowed'')"
  by (simp add: validateConfig_cases validateConfigUpdate_cases emptyObject_def validConfig_def
      isPositiveNumber_def isString_def)

section \<open>The adapter and its configuration\<close>

lemma construct_accepted:
  "validateConfig c = Inr () \<Longrightarrow>
     construct h (Some c) = (Inr (length h), h @ [new_instance\<lparr>config := Some c\<rparr>])"
  by (simp add: construct_def Let_def)


lemma construct_empty: "construct h None = (Inr (length h), h @ [new_instance])"
  by (simp add: construct_def Let_def)

lemma construct_cases:
  "construct h (Some c) =
     (case validateConfig c of
        Inl e \<Rightarrow> (Inl e, h @ [new_instance])
      | Inr u \<Rightarrow> (Inr (length h), h @ [new_instance\<lparr>config := Some c\<rparr>]))"
  by (simp add: construct_def Let_def split: sum.splits)

lemma heap_ok_append: "heap_ok (h @ [a]) \<longleftrightarrow>
    heap_ok h \<and> (case config a of None \<Rightarrow> True | Some c \<Rightarrow> validateConfig c = Inr ())"
  by (simp add: heap_ok_def)

lemma heap_ok_construct: "heap_ok h \<Longrightarrow> heap_ok (snd (construct h cfg))"
proof (cases cfg)
  case None
  assume "heap_ok h"
  with None show ?thesis by (simp add: construct_empty heap_ok_append new_instance_def)
next
  case (Some c)
  assume "heap_ok h"
  with Some show ?thesis
    by (cases "validateConfig c") (simp_all add: construct_cases heap_ok_append new_instance_def)
qed

subsection \<open>getConfig\<close>

text \<open>
  C7. After a successful construction with a config, \<^verbatim>\<open>getConfig\<close> on the new instance
  returns an object whose entries are exactly the six persisted fields
  (\<^verbatim>\<open>aiServiceUrl\<close>, \<^verbatim>\<open>model\<close>, \<^verbatim>\<open>encodingFormat\<close>, \<^verbatim>\<open>chunkSize\<close>, \<^verbatim>\<open>chunkOverlap\<close>,
  \<^verbatim>\<open>chunkStrategy\<close>), each with the value the config supplied at construction, and
  \<^verbatim>\<open>splitter\<close> is not among its keys.
\<close>

theorem getConfig_after_construct:
  assumes "construct h (Some c) = (Inr this, h')"
  shows "\<exists>r. getConfig (h' ! this) = Inr r
           \<and> r = [(''aiServiceUrl'', aiServiceUrl c), (''model'', model c),
                  (''encodingFormat'', encodingFormat c), (''chunkSize'', chunkSize c),
                  (''chunkOverlap'', chunkOverlap c), (''chunkStrategy'', chunkStrategy c)]
           \<and> ''splitter'' \<notin> fst ` set r"
proof (cases "validateConfig c")
  case (Inl e)
  with assms show ?thesis by (simp add: construct_cases)
next
  case (Inr u)
  with assms have "this = length h" and "h' = h @ [new_instance\<lparr>config := Some c\<rparr>]"
    by (simp_all add: construct_cases)
  then show ?thesis by (simp add: getConfig_def)
qed

text \<open>The theorem at the test of \<^verbatim>\<open>getConfig\<close>: construction from \<^verbatim>\<open>validConfig\<close>.\<close>

theorem getConfig_after_construct_witness:
  "construct [] (Some validConfig) = (Inr 0, [new_instance\<lparr>config := Some validConfig\<rparr>])
   \<and> getConfig ([new_instance\<lparr>config := Some validConfig\<rparr>] ! 0) =
       Inr [(''aiServiceUrl'', JStr ''https://example.com/embeddings''),
            (''model'', JStr ''text-embedding-3-large''),
            (''encodingFormat'', JStr ''float''),
            (''chunkSize'', JNum (Fin 64)),
            (''chunkOverlap'', JNum (Fin 10)),
            (''chunkStrategy'', JStr ''token'')]"
proof -
  have c: "construct [] (Some validConfig) = (Inr 0, [new_instance\<lparr>config := Some validConfig\<rparr>])"
    using construct_accepted [OF validConfig_accepted, of "[]"] by simp
  from getConfig_after_construct [OF c] c show ?thesis
    by (simp add: validConfig_def)
qed

subsection \<open>buildFromConfig\<close>

text \<open>
  C8. For every config, \<^verbatim>\<open>buildFromConfig\<close> called on an instance \<open>this\<close> does what the
  constructor does with that config: it validates it and, when it is accepted, returns a
  reference to a new instance, different from \<open>this\<close>, that stores the config; when it
  is rejected, it throws the validator's error. Either way the instances that existed
  before, \<open>this\<close> among them, are unchanged.
\<close>

theorem buildFromConfig_as_construct:
  assumes "this < length h"
  shows "buildFromConfig h this c = construct h (Some c)
    \<and> take (length h) (snd (buildFromConfig h this c)) = h
    \<and> snd (buildFromConfig h this c) ! this = h ! this
    \<and> (validateConfig c = Inr () \<longrightarrow>
         (\<exists>new. fst (buildFromConfig h this c) = Inr new \<and> new \<noteq> this \<and>
            config (snd (buildFromConfig h this c) ! new) = Some c))
    \<and> (\<forall>e. validateConfig c = Inl e \<longrightarrow> fst (buildFromConfig h this c) = Inl e)"
proof (cases "validateConfig c")
  case (Inl e)
  with assms show ?thesis
    by (simp add: buildFromConfig_def construct_cases nth_append)
next
  case (Inr u)
  with assms show ?thesis
    by (simp add: buildFromConfig_def construct_cases nth_append)
qed

text \<open>
  The theorem at the two tests of \<^verbatim>\<open>buildFromConfig\<close>: called on an empty instance with
  \<^verbatim>\<open>validConfig\<close>, and with \<^verbatim>\<open>model: 123\<close>.
\<close>

theorem buildFromConfig_as_construct_witness:
  "fst (buildFromConfig [new_instance] 0 validConfig) = Inr 1
   \<and> snd (buildFromConfig [new_instance] 0 validConfig) ! 0 = new_instance
   \<and> fst (buildFromConfig [new_instance] 0 (validConfig\<lparr>model := JNum (Fin 123)\<rparr>))
       = Inl (Error ''model is invalid'')"
proof -
  have len: "0 < length [new_instance]" by simp
  have bad: "validateConfig (validConfig\<lparr>model := JNum (Fin 123)\<rparr>) = Inl (Error ''model is invalid'')"
    by (simp add: validateConfig_cases validConfig_def isString_def)
  from buildFromConfig_as_construct [OF len, of validConfig]
  have a: "fst (buildFromConfig [new_instance] 0 validConfig) = Inr 1
      \<and> snd (buildFromConfig [new_instance] 0 validConfig) ! 0 = new_instance"
    by (simp add: construct_accepted [OF validConfig_accepted])
  from buildFromConfig_as_construct [OF len, of "validConfig\<lparr>model := JNum (Fin 123)\<rparr>"] bad
  have b: "fst (buildFromConfig [new_instance] 0 (validConfig\<lparr>model := JNum (Fin 123)\<rparr>))
       = Inl (Error ''model is invalid'')"
    by blast
  from a b show ?thesis by simp
qed

subsection \<open>The stored snapshot\<close>













section \<open>The embedding pipeline\<close>

subsection \<open>Splitting and batching\<close>

lemma split_texts_JFun:
  "splitter c = JFun f \<Longrightarrow> split_texts (Some c) texts acc = Inr (acc @ concat (map f texts))"
  by (induction texts arbitrary: acc) simp_all

lemma split_texts_not_function:
  "texts \<noteq> [] \<Longrightarrow> nullish (splitter c) \<Longrightarrow> split_texts (Some c) texts acc = Inl TypeError"
  by (cases texts; cases "splitter c") simp_all

lemma batch_request_eq:
  "batch_request c chunks i step = request_of c (slice chunks i (num_add i step))"
  by (simp add: batch_request_def request_of_def)

lemma batches_of_Nil: "batches_of k [] = []"
  by (subst batches_of.simps) simp

lemma batches_of_step:
  "0 < k \<Longrightarrow> xs \<noteq> [] \<Longrightarrow> batches_of k xs = take k xs # batches_of k (drop k xs)"
  by (subst batches_of.simps) simp

lemma concat_batches_of: "0 < k \<Longrightarrow> concat (batches_of k xs) = xs"
proof (induction k xs rule: batches_of.induct)
  case (1 k xs)
  then show ?case
    by (cases "xs = []") (simp_all add: batches_of_Nil batches_of_step)
qed

lemma batches_of_lengths:
  "0 < k \<Longrightarrow> b \<in> set (batches_of k xs) \<Longrightarrow> 0 < length b \<and> length b \<le> k"
proof (induction k xs rule: batches_of.induct)
  case (1 k xs)
  show ?case
  proof (cases "xs = []")
    case True
    with "1.prems" show ?thesis by (simp add: batches_of_Nil)
  next
    case False
    with "1.prems" have "b = take k xs \<or> b \<in> set (batches_of k (drop k xs))"
      by (simp add: batches_of_step)
    then show ?thesis
    proof
      assume "b = take k xs"
      with False "1.prems"(1) show ?thesis by (cases xs) auto
    next
      assume "b \<in> set (batches_of k (drop k xs))"
      with "1.IH" "1.prems"(1) False show ?thesis by simp
    qed
  qed
qed

lemma batches_of_full:
  "0 < k \<Longrightarrow> b \<in> set (butlast (batches_of k xs)) \<Longrightarrow> length b = k"
proof (induction k xs rule: batches_of.induct)
  case (1 k xs)
  show ?case
  proof (cases "xs = []")
    case True
    with "1.prems" show ?thesis by (simp add: batches_of_Nil)
  next
    case ne: False
    show ?thesis
    proof (cases "drop k xs = []")
      case True
      with "1.prems" ne show ?thesis by (simp add: batches_of_step batches_of_Nil)
    next
      case False
      then have len: "k < length xs" by simp
      from False "1.prems"(1) have "batches_of k (drop k xs) \<noteq> []"
        by (simp add: batches_of_step)
      with "1.prems" ne have "b = take k xs \<or> b \<in> set (butlast (batches_of k (drop k xs)))"
        by (simp add: batches_of_step)
      then show ?thesis
      proof
        assume "b = take k xs"
        with len show ?thesis by simp
      next
        assume "b \<in> set (butlast (batches_of k (drop k xs)))"
        with "1.IH" "1.prems"(1) ne show ?thesis by simp
      qed
    qed
  qed
qed

lemma relative_index_nat: "relative_index n (Fin (real j)) = min j n"
  by (simp add: js_truncate_def)

lemma slice_nat: "slice xs (Fin (real m)) (Fin (real m + real k)) = take k (drop m xs)"
proof -
  have "slice xs (Fin (real m)) (Fin (real (m + k))) = take k (drop m xs)"
    unfolding slice_def relative_index_nat
    by (cases "m \<le> length xs") (simp_all add: min_def)
  then show ?thesis by simp
qed

text \<open>
  The second loop with a whole chunk size \<open>k > 0\<close> and a service that answers every
  request with one vector per chunk: from \<open>i = m\<close> it sends the batches of the chunks
  from \<open>m\<close> on and appends their vectors.
\<close>

lemma embed_batches_nat:
  assumes c: "numeric_operand (chunkSize c) = Some (Fin (real k))" and k: "0 < k"
    and srv: "\<And>hist req. \<exists>r. fetch hist req = Inr r \<and> ok r \<and> json_data r = Some (map emb (req_input req))"
  shows "embed_batches (Some c) fetch chunks (Fin (real m)) embeddings sent =
           Some (Returned (embeddings @ map emb (drop m chunks)),
                 sent @ map (request_of c) (batches_of k (drop m chunks)))"
proof (induction "length chunks - m" arbitrary: m embeddings sent rule: less_induct)
  case less
  show ?case
  proof (cases "m < length chunks")
    case False
    then show ?thesis
      by (subst embed_batches.simps) (simp add: batches_of_Nil)
  next
    case True
    let ?req = "batch_request c chunks (Fin (real m)) (Fin (real k))"
    have req: "?req = request_of c (take k (drop m chunks))"
      by (simp add: batch_request_eq slice_nat)
    from srv obtain r where r: "fetch sent ?req = Inr r" "ok r"
      "json_data r = Some (map emb (req_input ?req))"
      by blast
    have inp: "req_input ?req = take k (drop m chunks)"
      by (simp add: req request_of_def)
    have dec: "length chunks - (m + k) < length chunks - m" using True k by simp
    have ne: "drop m chunks \<noteq> []" using True by simp
    have step: "embed_batches (Some c) fetch chunks (Fin (real m)) embeddings sent =
        embed_batches (Some c) fetch chunks (Fin (real (m + k)))
          (embeddings @ map emb (take k (drop m chunks))) (sent @ [?req])"
      using True c r inp by (subst embed_batches.simps) simp
    have d: "drop (m + k) chunks = drop k (drop m chunks)" by (simp add: add.commute)
    have "map emb (take k (drop m chunks)) @ map emb (drop k (drop m chunks)) = map emb (drop m chunks)"
      by (metis append_take_drop_id map_append)
    then show ?thesis
      unfolding step less [OF dec]
      using k ne by (simp add: req d batches_of_step)
  qed
qed

text \<open>
  C5 (as amended). When the stored config has a function as \<^verbatim>\<open>splitter\<close> and a positive
  whole number \<open>k\<close> as \<^verbatim>\<open>chunkSize\<close>, and the service answers every request with success
  and one vector per chunk of the request, in request order, then for every list of
  texts \<^verbatim>\<open>generate\<close> (and \<^verbatim>\<open>generateForQueries\<close>, which calls it) builds the chunk list
  as the concatenation, in input order, of the splitter's output for each text; sends one
  request per batch of the partition of that list into consecutive batches of \<open>k\<close>
  chunks, only the last batch possibly smaller and none empty; and returns one vector per
  chunk, in the order of the chunks.
\<close>

theorem generate_batches:
  assumes "config this = Some c"
    and "splitter c = JFun f"
    and "chunkSize c = JNum (Fin (real k))"
    and "0 < k"
    and "\<forall>hist req. \<exists>r. fetch hist req = Inr r \<and> ok r \<and> json_data r = Some (map emb (req_input req))"
  shows "generate this fetch texts =
           Some (Returned (map emb (concat (map f texts))),
                 map (request_of c) (batches_of k (concat (map f texts))))
    \<and> generateForQueries this fetch texts = generate this fetch texts
    \<and> concat (batches_of k (concat (map f texts))) = concat (map f texts)
    \<and> (\<forall>b \<in> set (butlast (batches_of k (concat (map f texts)))). length b = k)
    \<and> (\<forall>b \<in> set (batches_of k (concat (map f texts))). 0 < length b \<and> length b \<le> k)"
proof -
  have num: "numeric_operand (chunkSize c) = Some (Fin (real k))"
    using assms(3) by simp
  have "embed_batches (Some c) fetch (concat (map f texts)) (Fin (real 0)) [] [] =
      Some (Returned ([] @ map emb (drop 0 (concat (map f texts)))),
            [] @ map (request_of c) (batches_of k (drop 0 (concat (map f texts)))))"
    using assms(5) by (intro embed_batches_nat [OF num assms(4)]) blast
  then have "generate this fetch texts =
           Some (Returned (map emb (concat (map f texts))),
                 map (request_of c) (batches_of k (concat (map f texts))))"
    using assms(1,2) by (simp add: generate_def split_texts_JFun)
  moreover have "\<forall>b \<in> set (butlast (batches_of k (concat (map f texts)))). length b = k"
    using assms(4) by (blast intro: batches_of_full)
  moreover have "\<forall>b \<in> set (batches_of k (concat (map f texts))). 0 < length b \<and> length b \<le> k"
    using assms(4) by (blast dest: batches_of_lengths)
  ultimately show ?thesis
    using assms(4) by (simp add: generateForQueries_def concat_batches_of)
qed

text \<open>
  The theorem at the end-to-end example: the splitter of \<^verbatim>\<open>validConfig\<close> (each text is
  its own chunk), a chunk size of 2 and the texts a, b, c give the batches a, b and c,
  and the vectors come back in the order a, b, c.
\<close>

theorem generate_batches_witness:
  "generate (new_instance\<lparr>config := Some (validConfig\<lparr>chunkSize := JNum (Fin 2)\<rparr>)\<rparr>) echo
       [''a'', ''b'', ''c'']
     = Some (Returned [''a'', ''b'', ''c''],
         [request_of (validConfig\<lparr>chunkSize := JNum (Fin 2)\<rparr>) [''a'', ''b''],
          request_of (validConfig\<lparr>chunkSize := JNum (Fin 2)\<rparr>) [''c'']])"
proof -
  let ?c = "validConfig\<lparr>chunkSize := JNum (Fin 2)\<rparr>"
  have cfg: "config (new_instance\<lparr>config := Some ?c\<rparr>) = Some ?c" by simp
  have spl: "splitter ?c = JFun (\<lambda>text. [text])" by (simp add: validConfig_def)
  have cs: "chunkSize ?c = JNum (Fin (real 2))" by simp
  have k: "0 < (2::nat)" by simp
  have srv: "\<forall>hist req. \<exists>r. echo hist req = Inr r \<and> ok r \<and> json_data r = Some (map (\<lambda>x. x) (req_input req))"
    by (simp add: echo_def)
  have b: "batches_of 2 [''a'', ''b'', ''c''] = [[''a'', ''b''], [''c'']]"
    by (simp add: batches_of_step batches_of_Nil)
  from generate_batches [OF cfg spl cs k srv, of "[''a'', ''b'', ''c'']"] b
  show ?thesis by simp
qed

text \<open>
  C5 as stated fails: \<^verbatim>\<open>validateConfig\<close> accepts a chunk size of 1.5, and with it the
  chunks a, b, c are sent as the batch a and then the batch b, c (\<^verbatim>\<open>slice\<close> truncates its
  arguments): no batch has the size \<^verbatim>\<open>chunkSize\<close>, and it is the first batch, not the
  last, that is the smaller one.
\<close>

theorem generate_fractional_chunkSize_counterexample:
  "validateConfig (validConfig\<lparr>chunkSize := JNum (Fin (3 / 2))\<rparr>) = Inr ()
   \<and> generate (new_instance\<lparr>config := Some (validConfig\<lparr>chunkSize := JNum (Fin (3 / 2))\<rparr>)\<rparr>) echo
       [''a'', ''b'', ''c'']
     = Some (Returned [''a'', ''b'', ''c''],
         [request_of (validConfig\<lparr>chunkSize := JNum (Fin (3 / 2))\<rparr>) [''a''],
          request_of (validConfig\<lparr>chunkSize := JNum (Fin (3 / 2))\<rparr>) [''b'', ''c'']])"
proof -
  have "validateConfig (validConfig\<lparr>chunkSize := JNum (Fin (3 / 2))\<rparr>) = Inr ()"
    by (simp add: validateConfig_cases validConfig_def opt_ok_def isString_def
        isPositiveNumber_def isNonNegativeNumber_def isFunction_def)
  moreover have "generate (new_instance\<lparr>config := Some (validConfig\<lparr>chunkSize := JNum (Fin (3 / 2))\<rparr>)\<rparr>) echo
       [''a'', ''b'', ''c'']
     = Some (Returned [''a'', ''b'', ''c''],
         [request_of (validConfig\<lparr>chunkSize := JNum (Fin (3 / 2))\<rparr>) [''a''],
          request_of (validConfig\<lparr>chunkSize := JNum (Fin (3 / 2))\<rparr>) [''b'', ''c'']])"
    by (simp add: generate_def validConfig_def echo_def embed_batches.simps batch_request_def
        request_of_def slice_def js_truncate_def)
  ultimately show ?thesis by simp
qed

subsection \<open>A request that fails\<close>

lemma loop_index_Suc: "loop_index step (Suc j) = num_add (loop_index step j) step"
  by (simp add: loop_index_def)

lemma sent_before_Suc:
  "sent_before c chunks step (Suc j) = sent_before c chunks step j @ [nth_request c chunks step j]"
  by (simp add: sent_before_def)

text \<open>
  From the start of iteration \<open>j\<close>, when the iterations up to \<open>m\<close> are all entered, those
  before \<open>m\<close> get a successful answer and iteration \<open>m\<close> gets one that is not \<^verbatim>\<open>ok\<close>: the
  loop throws at \<open>m\<close>, whatever vectors it holds.
\<close>

lemma embed_batches_fails:
  assumes c: "numeric_operand (chunkSize c) = Some step"
    and entered: "\<And>j. j \<le> m \<Longrightarrow> num_less (loop_index step j) (Fin (real (length chunks)))"
    and oks: "\<And>j. j < m \<Longrightarrow>
        \<exists>r vs. fetch (sent_before c chunks step j) (nth_request c chunks step j) = Inr r
           \<and> ok r \<and> json_data r = Some vs"
    and bad: "fetch (sent_before c chunks step m) (nth_request c chunks step m) = Inr r" "\<not> ok r"
    and j: "j \<le> m"
  shows "embed_batches (Some c) fetch chunks (loop_index step j) embeddings (sent_before c chunks step j) =
           Some (Thrown (request_failed r), sent_before c chunks step (Suc m))"
  using j
proof (induction "m - j" arbitrary: j embeddings)
  case 0
  then have "j = m" by simp
  with c entered [of m] bad show ?case
    by (subst embed_batches.simps) (simp add: nth_request_def sent_before_Suc)
next
  case (Suc d)
  then have lt: "j < m" and d: "d = m - Suc j" and le: "Suc j \<le> m" by simp_all
  from oks [OF lt] obtain r' vs where
    r': "fetch (sent_before c chunks step j) (nth_request c chunks step j) = Inr r'"
      "ok r'" "json_data r' = Some vs"
    by blast
  have "embed_batches (Some c) fetch chunks (loop_index step j) embeddings (sent_before c chunks step j) =
        embed_batches (Some c) fetch chunks (loop_index step (Suc j)) (embeddings @ vs)
           (sent_before c chunks step (Suc j))"
    using c entered [of j] lt r'
    by (subst embed_batches.simps) (simp add: nth_request_def sent_before_Suc loop_index_Suc)
  also have "\<dots> = Some (Thrown (request_failed r), sent_before c chunks step (Suc m))"
    by (rule Suc.hyps(1) [OF d le])
  finally show ?case .
qed

text \<open>
  C6. Let \<^verbatim>\<open>generate\<close> run on an instance with a stored config whose chunk size is a
  step with exact sums (a whole number, or absent), on texts whose chunks are \<open>chunks\<close>.
  If the loop reaches its iteration \<open>m\<close> (iterations 0 to \<open>m\<close> are entered and the
  requests before the one of \<open>m\<close> are answered with success) and the request of
  iteration \<open>m\<close> is answered with a response that is not \<^verbatim>\<open>ok\<close>, then the call fails: the
  promise rejects with the error \<^verbatim>\<open>Embedding request failed: <status> <statusText>\<close> of
  that response and no vector is returned, also none of those the earlier batches
  fetched. The requests sent are those of iterations 0 to \<open>m\<close>, each once: the failed
  request is not repeated and no later batch is sent.
\<close>

theorem generate_fails_on_bad_response:
  assumes "config this = Some c"
    and "split_texts (config this) texts [] = Inr chunks"
    and "numeric_operand (chunkSize c) = Some step"
    and "exact_step step"
    and "\<forall>j\<le>m. num_less (loop_index step j) (Fin (real (length chunks)))"
    and "\<forall>j<m. \<exists>r vs. fetch (sent_before c chunks step j) (nth_request c chunks step j) = Inr r
                 \<and> ok r \<and> json_data r = Some vs"
    and "fetch (sent_before c chunks step m) (nth_request c chunks step m) = Inr r"
    and "\<not> ok r"
  shows "generate this fetch texts =
           Some (Thrown (Error (''Embedding request failed: '' @ string_of_nat (status r) @ '' ''
                                  @ statusText r)),
                 map (nth_request c chunks step) [0..<Suc m])"
proof -
  have "embed_batches (Some c) fetch chunks (loop_index step 0) [] (sent_before c chunks step 0) =
           Some (Thrown (request_failed r), sent_before c chunks step (Suc m))"
    using assms(3,5-8) by (intro embed_batches_fails) auto
  then show ?thesis
    using assms(1,2)
    by (simp add: generate_def loop_index_def sent_before_def request_failed_def)
qed

text \<open>
  The theorem at a failure in batch 2 of 3: chunk size 1, the texts a, b, c, and a service
  that answers the second request with status 500. The requests for a and for b are
  sent, the one for c is not, and the vector fetched for a is not returned.
\<close>

theorem generate_fails_on_bad_response_witness:
  "generate (new_instance\<lparr>config := Some (validConfig\<lparr>chunkSize := JNum (Fin 1)\<rparr>)\<rparr>) second_fails
       [''a'', ''b'', ''c'']
     = Some (Thrown (Error ''Embedding request failed: 500 Internal Server Error''),
         [request_of (validConfig\<lparr>chunkSize := JNum (Fin 1)\<rparr>) [''a''],
          request_of (validConfig\<lparr>chunkSize := JNum (Fin 1)\<rparr>) [''b'']])"
proof -
  let ?c = "validConfig\<lparr>chunkSize := JNum (Fin 1)\<rparr>"
  let ?adapter = "new_instance\<lparr>config := Some ?c\<rparr>"
  let ?chunks = "[''a'', ''b'', ''c'']"
  let ?r = "\<lparr>ok = False, status = 500, statusText = ''Internal Server Error'',
             json_data = None :: string list option\<rparr>"
  have cfg: "config ?adapter = Some ?c" by simp
  have spl: "split_texts (config ?adapter) ?chunks [] = Inr ?chunks"
    by (simp add: validConfig_def)
  have num: "numeric_operand (chunkSize ?c) = Some (Fin 1)" by simp
  have i0: "loop_index (Fin 1) 0 = Fin 0" and i1: "loop_index (Fin 1) (Suc 0) = Fin 1"
    by (simp_all add: loop_index_def)
  have entered: "\<forall>j\<le>Suc 0. num_less (loop_index (Fin 1) j) (Fin (real (length ?chunks)))"
    by (simp add: le_Suc_eq i0 i1)
  have r0: "nth_request ?c ?chunks (Fin 1) 0 = request_of ?c [''a'']"
    by (simp add: nth_request_def batch_request_eq i0 slice_def js_truncate_def)
  have r1: "nth_request ?c ?chunks (Fin 1) (Suc 0) = request_of ?c [''b'']"
    by (simp add: nth_request_def batch_request_eq i1 slice_def js_truncate_def)
  have oks: "\<forall>j<Suc 0. \<exists>r vs. second_fails (sent_before ?c ?chunks (Fin 1) j)
        (nth_request ?c ?chunks (Fin 1) j) = Inr r \<and> ok r \<and> json_data r = Some vs"
    by (simp add: sent_before_def second_fails_def echo_def)
  have bad: "second_fails (sent_before ?c ?chunks (Fin 1) (Suc 0))
        (nth_request ?c ?chunks (Fin 1) (Suc 0)) = Inr ?r"
    by (simp add: sent_before_def second_fails_def)
  have nok: "\<not> ok ?r" by simp
  have ex: "exact_step (Fin 1)" by simp
  from generate_fails_on_bad_response [OF cfg spl num ex entered oks bad nok]
  show ?thesis by (simp add: r0 r1)
qed

subsection \<open>Accepted configurations that the pipeline cannot use\<close>

lemma embed_batches_no_chunkSize:
  assumes "chunkSize c = JUndefined" "chunks \<noteq> []"
  shows "\<exists>out. embed_batches (Some c) fetch chunks (Fin 0) [] [] = Some (out, [request_of c []])"
proof -
  have req: "batch_request c chunks (Fin 0) NaN = request_of c []"
    by (simp add: batch_request_eq slice_def js_truncate_def)
  have stop: "\<And>e s. embed_batches (Some c) fetch chunks NaN e s = Some (Returned e, s)"
    by (subst embed_batches.simps) simp
  show ?thesis
    using assms
    by (subst embed_batches.simps) (simp add: req stop split: sum.splits option.splits)
qed

text \<open>
  C10. Acceptance by \<^verbatim>\<open>validateConfig\<close> does not make a config fit for \<^verbatim>\<open>generate\<close>.
  There is an accepted config without \<^verbatim>\<open>splitter\<close> with which \<^verbatim>\<open>generate\<close>, on every
  non-empty list of texts and whatever the service does, throws a \<^verbatim>\<open>TypeError\<close> (not a
  validation error) before any request is sent. And there is an accepted config with a
  splitter and without \<^verbatim>\<open>chunkSize\<close> with which, on every non-empty list of texts, the
  chunk list is not empty and yet \<^verbatim>\<open>generate\<close> sends exactly one request, whose batch
  is empty: the batches do not partition the chunks.
\<close>

theorem accepted_config_unfit_for_generate:
  "(\<exists>c. validateConfig c = Inr () \<and> nullish (splitter c) \<and>
      (\<forall>texts (fetch :: 'e fetch). texts \<noteq> [] \<longrightarrow>
         generate (new_instance\<lparr>config := Some c\<rparr>) fetch texts = Some (Thrown TypeError, [])))
   \<and> (\<exists>c f. validateConfig c = Inr () \<and> nullish (chunkSize c) \<and> splitter c = JFun f \<and>
      (\<forall>texts (fetch :: 'e fetch). texts \<noteq> [] \<longrightarrow>
         concat (map f texts) \<noteq> [] \<and>
         (\<exists>out. generate (new_instance\<lparr>config := Some c\<rparr>) fetch texts
                  = Some (out, [request_of c []]))))"
proof (intro conjI)
  let ?c = "validConfig\<lparr>splitter := JUndefined\<rparr>"
  have "validateConfig ?c = Inr ()"
    by (simp add: validateConfig_cases validConfig_def opt_ok_def isString_def
        isPositiveNumber_def isNonNegativeNumber_def)
  moreover have "nullish (splitter ?c)" by simp
  moreover have "\<forall>texts (fetch :: 'e fetch). texts \<noteq> [] \<longrightarrow>
      generate (new_instance\<lparr>config := Some ?c\<rparr>) fetch texts = Some (Thrown TypeError, [])"
    by (simp add: generate_def split_texts_not_function)
  ultimately show "\<exists>c. validateConfig c = Inr () \<and> nullish (splitter c) \<and>
      (\<forall>texts (fetch :: 'e fetch). texts \<noteq> [] \<longrightarrow>
         generate (new_instance\<lparr>config := Some c\<rparr>) fetch texts = Some (Thrown TypeError, []))"
    by blast
next
  let ?c = "validConfig\<lparr>chunkSize := JUndefined\<rparr>"
  let ?f = "\<lambda>text :: string. [text]"
  have "validateConfig ?c = Inr ()"
    by (simp add: validateConfig_cases validConfig_def opt_ok_def isString_def
        isNonNegativeNumber_def isFunction_def)
  moreover have "nullish (chunkSize ?c)" by simp
  moreover have spl: "splitter ?c = JFun ?f" by (simp add: validConfig_def)
  moreover have "\<forall>texts (fetch :: 'e fetch). texts \<noteq> [] \<longrightarrow>
         concat (map ?f texts) \<noteq> [] \<and>
         (\<exists>out. generate (new_instance\<lparr>config := Some ?c\<rparr>) fetch texts
                  = Some (out, [request_of ?c []]))"
  proof (intro allI impI)
    fix texts :: "string list" and fetch :: "'e fetch"
    assume "texts \<noteq> []"
    then have ne: "concat (map ?f texts) \<noteq> []" by (cases texts) simp_all
    have cs: "chunkSize ?c = JUndefined" by simp
    from embed_batches_no_chunkSize [OF cs ne, of fetch]
    have "\<exists>out. generate (new_instance\<lparr>config := Some ?c\<rparr>) fetch texts
                  = Some (out, [request_of ?c []])"
      by (simp add: generate_def split_texts_JFun [OF spl])
    with ne show "concat (map ?f texts) \<noteq> [] \<and>
         (\<exists>out. generate (new_instance\<lparr>config := Some ?c\<rparr>) fetch texts
                  = Some (out, [request_of ?c []]))"
      by simp
  qed
  ultimately show "\<exists>c f. validateConfig c = Inr () \<and> nullish (chunkSize c) \<and> splitter c = JFun f \<and>
      (\<forall>texts (fetch :: 'e fetch). texts \<noteq> [] \<longrightarrow>
         concat (map f texts) \<noteq> [] \<and>
         (\<exists>out. generate (new_instance\<lparr>config := Some c\<rparr>) fetch texts
                  = Some (out, [request_of c []])))"
    by blast
qed

text \<open>
  The theorem with the text a and the echoing service: one config is accepted and makes
  \<^verbatim>\<open>generate\<close> throw, another is accepted and makes it send the empty batch only.
\<close>

theorem accepted_config_unfit_for_generate_witness:
  "(\<exists>c. validateConfig c = Inr () \<and>
      generate (new_instance\<lparr>config := Some c\<rparr>) echo [''a''] = Some (Thrown TypeError, []))
   \<and> (\<exists>c f out. validateConfig c = Inr () \<and> splitter c = JFun f \<and> concat (map f [''a'']) \<noteq> [] \<and>
      generate (new_instance\<lparr>config := Some c\<rparr>) echo [''a''] = Some (out, [request_of c []]))"
proof -
  from accepted_config_unfit_for_generate [where 'e = string]
  obtain c1 c2 f where
    c1: "validateConfig c1 = Inr ()"
      "\<forall>texts (fetch :: string fetch). texts \<noteq> [] \<longrightarrow>
         generate (new_instance\<lparr>config := Some c1\<rparr>) fetch texts = Some (Thrown TypeError, [])"
    and c2: "validateConfig c2 = Inr ()" "splitter c2 = JFun f"
      "\<forall>texts (fetch :: string fetch). texts \<noteq> [] \<longrightarrow>
         concat (map f texts) \<noteq> [] \<and>
         (\<exists>out. generate (new_instance\<lparr>config := Some c2\<rparr>) fetch texts
                  = Some (out, [request_of c2 []]))"
    by blast
  have ne: "[''a''] \<noteq> []" by simp
  from c1 ne have a: "\<exists>c. validateConfig c = Inr () \<and>
      generate (new_instance\<lparr>config := Some c\<rparr>) echo [''a''] = Some (Thrown TypeError, [])"
    by blast
  from c2(3) ne have "concat (map f [''a'']) \<noteq> [] \<and>
      (\<exists>out. generate (new_instance\<lparr>config := Some c2\<rparr>) echo [''a''] = Some (out, [request_of c2 []]))"
    by blast
  with c2(1,2) have b: "\<exists>c f out. validateConfig c = Inr () \<and> splitter c = JFun f \<and>
      concat (map f [''a'']) \<noteq> [] \<and>
      generate (new_instance\<lparr>config := Some c\<rparr>) echo [''a''] = Some (out, [request_of c []])"
    by blast
  from a b show ?thesis by simp
qed

subsection \<open>The chunk size of a stored configuration\<close>

text \<open>
  A config that \<^verbatim>\<open>validateConfig\<close> accepts has a \<^verbatim>\<open>chunkSize\<close> that is absent or a number,
  so the second loop of \<^verbatim>\<open>generate\<close> always adds numbers on an instance the constructor
  has configured.
\<close>

lemma accepted_chunkSize_numeric:
  assumes "validateConfig c = Inr ()"
  shows "\<exists>step. numeric_operand (chunkSize c) = Some step"
proof -
  from assms have "opt_ok isPositiveNumber (chunkSize c)"
    by (simp add: validateConfig_cases split: if_splits)
  then show ?thesis
    by (cases "chunkSize c") (simp_all add: opt_ok_def isPositiveNumber_def)
qed

end
